theory Spec2Isabelle
  imports Complex_Main "HOL-Library.AList"
begin

section \<open>JavaScript values\<close>

text \<open>
  The hooks are written against values of type \<^verbatim>\<open>any\<close>: fetch responses, filter
  objects, sorter objects, parsed preset data and thrown errors.  A value is a primitive,
  an array, a plain object (an ordered list of own properties, as \<^verbatim>\<open>Object.keys\<close>
  enumerates them) or an instance of a class (\<^verbatim>\<open>Error\<close>, a date object, ...), which
  carries the name of its class and its own properties.  Finite numbers are rationals.
\<close>

datatype jsval =
    JUndefined
  | JNull
  | JBool bool
  | JNum rat
  | JStr string
  | JArr "jsval list"
  | JObj "(string \<times> jsval) list"
  | JInst string "(string \<times> jsval) list"

text \<open>\<^verbatim>\<open>v == null\<close>, the test behind \<^verbatim>\<open>??\<close>, \<^verbatim>\<open>?.\<close> and lodash's \<^verbatim>\<open>isNil\<close>.\<close>

fun nullish :: "jsval \<Rightarrow> bool" where
  "nullish JUndefined = True"
| "nullish JNull = True"
| "nullish _ = False"

text \<open>\<^verbatim>\<open>a ?? b\<close>\<close>

definition coalesce :: "jsval \<Rightarrow> jsval \<Rightarrow> jsval" where
  "coalesce a b = (if nullish a then b else a)"

text \<open>
  \<^verbatim>\<open>v?.name\<close>: the own property of an object, \<^verbatim>\<open>undefined\<close> when the object has
  no such property, when \<open>v\<close> is \<^verbatim>\<open>null\<close> or \<^verbatim>\<open>undefined\<close>, and when \<open>v\<close> is a
  primitive or an array (none of the names the hooks read is a property of those).
\<close>

fun get :: "jsval \<Rightarrow> string \<Rightarrow> jsval" where
  "get (JObj kvs) k = (case map_of kvs k of Some v \<Rightarrow> v | None \<Rightarrow> JUndefined)"
| "get (JInst c kvs) k = (case map_of kvs k of Some v \<Rightarrow> v | None \<Rightarrow> JUndefined)"
| "get _ k = JUndefined"

text \<open>
  What a call can raise, or a promise reject with: the two errors of the language that
  occur here, an \<^verbatim>\<open>Error\<close> the hooks construct, and whatever a callback of the
  caller rejects with.
\<close>

datatype js_error = TypeError | ReferenceError | Error string | Rejected jsval

text \<open>
  \<^verbatim>\<open>v.name\<close> without the question mark: reading a property of \<^verbatim>\<open>null\<close> or
  \<^verbatim>\<open>undefined\<close> is a \<^verbatim>\<open>TypeError\<close>.
\<close>

definition read_prop :: "jsval \<Rightarrow> string \<Rightarrow> js_error + jsval" where
  "read_prop v k = (if nullish v then Inl TypeError else Inr (get v k))"

text \<open>Truthiness, as \<^verbatim>\<open>!v\<close>, \<^verbatim>\<open>a || b\<close> and \<^verbatim>\<open>c ? x : y\<close> test it.\<close>

fun truthy :: "jsval \<Rightarrow> bool" where
  "truthy JUndefined = False"
| "truthy JNull = False"
| "truthy (JBool b) = b"
| "truthy (JNum n) = (n \<noteq> 0)"
| "truthy (JStr s) = (s \<noteq> [])"
| "truthy _ = True"

text \<open>\<^verbatim>\<open>a || b\<close>\<close>

definition js_or :: "jsval \<Rightarrow> jsval \<Rightarrow> jsval" where
  "js_or a b = (if truthy a then a else b)"

section \<open>Response normalization (useTableQuery)\<close>

text \<open>
  \<^verbatim>\<open>extractDataFromResponse\<close>: a chain of nine optional property paths joined by
  \<^verbatim>\<open>??\<close> (left associative), ending in the empty array.
\<close>

definition extractDataFromResponse :: "jsval \<Rightarrow> jsval" where
  "extractDataFromResponse d =
     coalesce (coalesce (coalesce (coalesce (coalesce (coalesce (coalesce (coalesce (coalesce
       (get (get d ''response'') ''mainResult'')
       (get d ''response''))
       (get d ''mainResult''))
       (get d ''MainResult''))
       (get (get d ''body'') ''mainResult''))
       (get (get d ''body'') ''data''))
       (get d ''body''))
       (get d ''data''))
       (get d ''Data''))
       (JArr [])"

text \<open>
  The envelope shapes in the words of the specification: the known shapes in their order
  of priority, and the first one that is present (not \<^verbatim>\<open>null\<close>, not
  \<^verbatim>\<open>undefined\<close>) wins.
\<close>

definition envelope_shapes :: "jsval \<Rightarrow> jsval list" where
  "envelope_shapes d =
     [get (get d ''response'') ''mainResult'',
      get d ''response'',
      get d ''mainResult'',
      get d ''MainResult'',
      get (get d ''body'') ''mainResult'',
      get (get d ''body'') ''data'',
      get d ''body'',
      get d ''data'',
      get d ''Data'']"

definition first_match :: "jsval \<Rightarrow> jsval" where
  "first_match d =
     (case find (\<lambda>v. \<not> nullish v) (envelope_shapes d) of
        Some v \<Rightarrow> v
      | None \<Rightarrow> JArr [])"

section \<open>Error messages (parseErrorMessage)\<close>






section \<open>Filter pruning (pruneNullOrUndefinedFields)\<close>

text \<open>
  lodash's \<^verbatim>\<open>transform(obj, recursiveTransform, {})\<close> calls the callback on the own
  properties of \<open>obj\<close> in order, threading the accumulator \<open>result\<close>
  (\<open>transform\<close> below); an assignment to \<open>result\<close> overwrites an existing
  property in place and appends a new one.  Only plain objects are descended into
  (\<^verbatim>\<open>isPlainObject\<close>): arrays and class instances are values like any other.
\<close>

text \<open>
  \<^verbatim>\<open>result[key] = v\<close> on the accumulator.  For the key \<^verbatim>\<open>__proto__\<close> the
  assignment goes to the prototype of \<open>result\<close> and adds no own property; the
  prototype is not part of a value here.
\<close>

definition assign :: "string \<Rightarrow> jsval \<Rightarrow> (string \<times> jsval) list \<Rightarrow> (string \<times> jsval) list" where
  "assign key v result = (if key = ''__proto__'' then result else AList.update key v result)"

fun transform :: "(string \<times> jsval) list \<Rightarrow> (string \<times> jsval) list \<Rightarrow> (string \<times> jsval) list"
  and recursiveTransform :: "(string \<times> jsval) list \<Rightarrow> jsval \<Rightarrow> string \<Rightarrow> (string \<times> jsval) list"
where
  "transform [] result = result"
| "transform ((key, v) # rest) result = transform rest (recursiveTransform result v key)"
| "recursiveTransform result (JObj nested) key =
     (let objRes = transform nested []
      in if objRes \<noteq> [] then assign key (JObj objRes) result else result)"
| "recursiveTransform result v key =
     (if nullish v \<or> v = JStr [] then result else assign key v result)"

definition pruneNullOrUndefinedFields :: "(string \<times> jsval) list \<Rightarrow> (string \<times> jsval) list" where
  "pruneNullOrUndefinedFields obj = transform obj []"

text \<open>
  What "pruned" means for the result, following the plain objects only: no property is
  \<^verbatim>\<open>null\<close>, \<^verbatim>\<open>undefined\<close> or the empty string, and every property that is a plain
  object is non-empty and pruned itself.
\<close>

fun pruned :: "(string \<times> jsval) list \<Rightarrow> bool"
  and pruned_value :: "jsval \<Rightarrow> bool"
where
  "pruned [] = True"
| "pruned ((key, v) # rest) = (pruned_value v \<and> pruned rest)"
| "pruned_value (JObj nested) = (nested \<noteq> [] \<and> pruned nested)"
| "pruned_value v = (\<not> nullish v \<and> v \<noteq> JStr [])"

text \<open>
  The values the callback stores as they are: everything but a plain object,
  \<^verbatim>\<open>null\<close>, \<^verbatim>\<open>undefined\<close> and the empty string; arrays and class instances are
  among them, whatever they hold.
\<close>

fun kept_as_is :: "jsval \<Rightarrow> bool" where
  "kept_as_is (JObj nested) = False"
| "kept_as_is v = (\<not> nullish v \<and> v \<noteq> JStr [])"

text \<open>
  An object of the language has no two properties of the same name; \<open>distinct_keys\<close>
  says so of a filter object and of the plain objects nested in it.
\<close>

fun distinct_keys :: "(string \<times> jsval) list \<Rightarrow> bool"
  and distinct_keys_value :: "jsval \<Rightarrow> bool"
where
  "distinct_keys [] = True"
| "distinct_keys ((key, v) # rest) =
     (key \<notin> set (map fst rest) \<and> distinct_keys_value v \<and> distinct_keys rest)"
| "distinct_keys_value (JObj nested) = distinct_keys nested"
| "distinct_keys_value v = True"

text \<open>
  The value at a path of property names that leads through plain objects:
  \<^verbatim>\<open>obj.a.b.c\<close> for the path \<open>[a, b, c]\<close>, \<open>None\<close> when the path leads nowhere.
\<close>

fun at_path :: "(string \<times> jsval) list \<Rightarrow> string list \<Rightarrow> jsval option" where
  "at_path obj [] = None"
| "at_path obj [k] = map_of obj k"
| "at_path obj (k # k' # p) =
     (case map_of obj k of
        Some (JObj nested) \<Rightarrow> at_path nested (k' # p)
      | _ \<Rightarrow> None)"

text \<open>
  The same at every nesting depth, arrays and class instances included: nowhere inside
  the value is there a \<^verbatim>\<open>null\<close>, an \<^verbatim>\<open>undefined\<close>, an empty string or an empty
  nested plain object.
\<close>

fun clean_everywhere :: "jsval \<Rightarrow> bool" where
  "clean_everywhere JUndefined = False"
| "clean_everywhere JNull = False"
| "clean_everywhere (JBool b) = True"
| "clean_everywhere (JNum n) = True"
| "clean_everywhere (JStr s) = (s \<noteq> [])"
| "clean_everywhere (JArr xs) = list_all clean_everywhere xs"
| "clean_everywhere (JObj kvs) = (kvs \<noteq> [] \<and> list_all (\<lambda>(k, v). clean_everywhere v) kvs)"
| "clean_everywhere (JInst c kvs) = list_all (\<lambda>(k, v). clean_everywhere v) kvs"

definition pruned_at_every_depth :: "(string \<times> jsval) list \<Rightarrow> bool" where
  "pruned_at_every_depth obj = list_all (\<lambda>(k, v). clean_everywhere v) obj"

section \<open>The table query hook (useTableQuery)\<close>

subsection \<open>Options and state\<close>

text \<open>
  A column descriptor: its stable key \<^verbatim>\<open>dataIndex\<close>, its title, and the optional
  \<^verbatim>\<open>hidden\<close> and \<^verbatim>\<open>order\<close> properties (\<open>None\<close> is \<^verbatim>\<open>undefined\<close>).
\<close>

record column =
  dataIndex :: string
  title :: string
  hidden :: "bool option"
  order :: "int option"

text \<open>
  The options of the hook.  An option with a default in the parameter list is \<open>None\<close>
  when the caller leaves it out; \<open>initialFilters\<close> and \<open>initialSorter\<close> are of
  type \<^verbatim>\<open>Record<string, any>\<close>, the properties of an object; \<open>cacheKey\<close> is
  \<open>None\<close> for \<^verbatim>\<open>undefined\<close> or \<^verbatim>\<open>null\<close>; \<open>defaultStale\<close>, the option \<^verbatim>\<open>staleTime\<close>, is in minutes.
\<close>

record options =
  initialData :: "jsval option"
  initialColumns :: "column list option"
  initialFilters :: "(string \<times> jsval) list option"
  cacheKey :: "string option"
  initialPage :: "int option"
  initialPageSize :: "int option"
  initialSorter :: "(string \<times> jsval) list option"
  defaultStale :: "nat option"

text \<open>The eight \<^verbatim>\<open>useState\<close> cells of the hook.\<close>

record hook_state =
  isCacheKeyUndefined :: bool
  columns :: "column list"
  current :: int
  pageSize :: int
  submittedFilters :: "(string \<times> jsval) list"
  sorter :: jsval
  staleTime :: string
  isRetrying :: bool

subsection \<open>The stale window\<close>

text \<open>The decimal digits of a natural number, as a template literal prints it.\<close>

fun show_nat :: "nat \<Rightarrow> string" where
  "show_nat n =
     (if n < 10 then [''0123456789'' ! n]
      else show_nat (n div 10) @ [''0123456789'' ! (n mod 10)])"

declare show_nat.simps [simp del]

text \<open>
  \<^verbatim>\<open>getTimeWindowKey(intervalMinutes = 5, prefix = "")\<close> at the clock reading \<open>now\<close>
  (milliseconds since the epoch).  A zero interval divides by zero: the quotient is
  \<^verbatim>\<open>Infinity\<close>, or \<^verbatim>\<open>NaN\<close> at time zero.
\<close>

definition getTimeWindowKey :: "nat option \<Rightarrow> string \<Rightarrow> nat \<Rightarrow> string" where
  "getTimeWindowKey intervalMinutes prefix now =
     (let minutes = (case intervalMinutes of None \<Rightarrow> 5 | Some m \<Rightarrow> m);
          intervalMs = minutes * 60 * 1000
      in if intervalMs = 0 then prefix @ (if now = 0 then ''NaN'' else ''Infinity'')
         else prefix @ show_nat (now div intervalMs))"

subsection \<open>Initial state\<close>

text \<open>\<^verbatim>\<open>columnsWithOrder\<close>: a column without an order gets its index.\<close>

definition columnsWithOrder :: "options \<Rightarrow> column list" where
  "columnsWithOrder opts =
     (let cols = (case initialColumns opts of None \<Rightarrow> [] | Some cs \<Rightarrow> cs)
      in if length cols > 0
         then map (\<lambda>(index, col).
                col\<lparr>order := Some (case order col of Some n \<Rightarrow> n | None \<Rightarrow> int index)\<rparr>)
              (enumerate 0 cols)
         else [])"

definition initial_state :: "options \<Rightarrow> nat \<Rightarrow> hook_state" where
  "initial_state opts now =
     \<lparr> isCacheKeyUndefined = False,
       columns = columnsWithOrder opts,
       current = (case initialPage opts of None \<Rightarrow> 1 | Some p \<Rightarrow> p),
       pageSize = (case initialPageSize opts of None \<Rightarrow> 10 | Some n \<Rightarrow> n),
       submittedFilters =
         pruneNullOrUndefinedFields (case initialFilters opts of None \<Rightarrow> [] | Some f \<Rightarrow> f),
       sorter = JObj (case initialSorter opts of None \<Rightarrow> [] | Some kvs \<Rightarrow> kvs),
       staleTime = getTimeWindowKey (defaultStale opts) ''filters_'' now,
       isRetrying = False \<rparr>"

text \<open>\<^verbatim>\<open>sortedColumns\<close>: a stable sort on the order, 999 for a column without one.\<close>

definition sortedColumns :: "hook_state \<Rightarrow> column list" where
  "sortedColumns s = sort_key (\<lambda>c. case order c of Some n \<Rightarrow> n | None \<Rightarrow> 999) (columns s)"

subsection \<open>Transitions\<close>

text \<open>\<^verbatim>\<open>submitFilters(newFilters)\<close>, called at the clock reading \<open>now\<close>.\<close>

definition submitFilters :: "options \<Rightarrow> nat \<Rightarrow> (string \<times> jsval) list \<Rightarrow> hook_state \<Rightarrow> hook_state" where
  "submitFilters opts now newFilters s =
     (let processedFilters = pruneNullOrUndefinedFields newFilters
      in s\<lparr> submittedFilters := processedFilters,
            current := 1,
            staleTime := getTimeWindowKey (defaultStale opts) ''filters_'' now,
            isCacheKeyUndefined := False,
            isRetrying := False \<rparr>)"

definition updateColumnVisibility :: "string \<Rightarrow> bool \<Rightarrow> int option \<Rightarrow> hook_state \<Rightarrow> hook_state" where
  "updateColumnVisibility key hide ord s =
     s\<lparr> columns :=
          map (\<lambda>col.
             if dataIndex col = key then
               (case ord of
                  Some n \<Rightarrow> col\<lparr>hidden := Some hide, order := Some n\<rparr>
                | None \<Rightarrow> col\<lparr>hidden := Some hide\<rparr>)
             else col)
            (columns s) \<rparr>"

definition resetColumnVisibility :: "options \<Rightarrow> hook_state \<Rightarrow> hook_state" where
  "resetColumnVisibility opts s = s\<lparr> columns := columnsWithOrder opts \<rparr>"

definition handlePaginationChange :: "int \<Rightarrow> int \<Rightarrow> hook_state \<Rightarrow> hook_state" where
  "handlePaginationChange page psize s = s\<lparr> current := page, pageSize := psize \<rparr>"

text \<open>
  \<^verbatim>\<open>handleTableChange(pagination, filters, sorter)\<close>.  Of a multi-column sort the
  first sorter counts; reading \<^verbatim>\<open>.order\<close> of the first element of an empty array
  is a \<^verbatim>\<open>TypeError\<close>, raised after the two pagination cells are set.
\<close>

definition handleTableChange :: "int \<Rightarrow> int \<Rightarrow> jsval \<Rightarrow> hook_state \<Rightarrow> js_error option \<times> hook_state" where
  "handleTableChange page psize srt s =
     (let s1 = s\<lparr> current := page, pageSize := psize \<rparr>
      in if truthy srt then
           (let activeSorter =
                  (case srt of
                     JArr xs \<Rightarrow> (case xs of [] \<Rightarrow> JUndefined | x # _ \<Rightarrow> x)
                   | _ \<Rightarrow> srt)
            in if nullish activeSorter then (Some TypeError, s1)
               else if truthy (get activeSorter ''order'') then (None, s1\<lparr> sorter := activeSorter \<rparr>)
               else (None, s1\<lparr> sorter := JObj [] \<rparr>))
         else (None, s1))"

subsection \<open>Requests and the cache key\<close>

text \<open>The argument of \<^verbatim>\<open>fetchData\<close>, flattened.\<close>

record FetchDataParams =
  filters :: "(string \<times> jsval) list"
  pagination_page :: int
  pagination_pageSize :: int
  sorter_orderColumn :: jsval
  sorter_orderDir :: int

text \<open>
  \<^verbatim>\<open>sorter.columnKey || sorter.field\<close> and
  \<^verbatim>\<open>sorter.order ? (sorter.order === "ascend" ? 1 : -1) : -1\<close>: plain property
  reads, which raise when the sorter is \<^verbatim>\<open>null\<close> or \<^verbatim>\<open>undefined\<close>.
\<close>

definition orderColumn :: "jsval \<Rightarrow> js_error + jsval" where
  "orderColumn srt =
     (case read_prop srt ''columnKey'' of
        Inl err \<Rightarrow> Inl err
      | Inr columnKey \<Rightarrow> if truthy columnKey then Inr columnKey else read_prop srt ''field'')"

definition orderDir :: "jsval \<Rightarrow> js_error + int" where
  "orderDir srt =
     (case read_prop srt ''order'' of
        Inl err \<Rightarrow> Inl err
      | Inr ord \<Rightarrow>
          if truthy ord then Inr (if ord = JStr ''ascend'' then 1 else - 1)
          else Inr (- 1))"

text \<open>
  The request of the fetcher that \<^verbatim>\<open>useSWR\<close> runs for the current key.  The argument
  object is built before \<^verbatim>\<open>fetchData\<close> is called, so an error in building it
  leaves no request.
\<close>

definition fetcher_request :: "hook_state \<Rightarrow> js_error + FetchDataParams" where
  "fetcher_request s =
     (case orderColumn (sorter s) of
        Inl err \<Rightarrow> Inl err
      | Inr col \<Rightarrow>
          (case orderDir (sorter s) of
             Inl err \<Rightarrow> Inl err
           | Inr dir \<Rightarrow>
               Inr \<lparr> filters = submittedFilters s,
                     pagination_page = current s,
                     pagination_pageSize = pageSize s,
                     sorter_orderColumn = col,
                     sorter_orderDir = dir \<rparr>))"

text \<open>
  \<^verbatim>\<open>exportFn\<close>: the argument object is built, then \<^verbatim>\<open>fetchData\<close> is called once;
  its promise resolves (\<open>Inr\<close>) or rejects (\<open>Inl\<close>), and what it resolves to is
  normalized.
\<close>

definition exportFn :: "(FetchDataParams \<Rightarrow> js_error + jsval) \<Rightarrow> hook_state \<Rightarrow> js_error + jsval" where
  "exportFn fetchData s =
     (case orderColumn (sorter s) of
        Inl err \<Rightarrow> Inl err
      | Inr col \<Rightarrow>
          (case orderDir (sorter s) of
             Inl err \<Rightarrow> Inl err
           | Inr dir \<Rightarrow>
               (case fetchData
                       \<lparr> filters = submittedFilters s,
                         pagination_page = 1,
                         pagination_pageSize = 0,
                         sorter_orderColumn = col,
                         sorter_orderDir = dir \<rparr> of
                  Inl err \<Rightarrow> Inl err
                | Inr rawData \<Rightarrow> Inr (extractDataFromResponse rawData))))"

text \<open>\<^verbatim>\<open>dataSource\<close>, from the data \<^verbatim>\<open>useSWR\<close> holds (\<^verbatim>\<open>undefined\<close> before the first response).\<close>

definition dataSource :: "options \<Rightarrow> jsval \<Rightarrow> jsval" where
  "dataSource opts swr_data =
     extractDataFromResponse
       (coalesce swr_data
          (case initialData opts of
             None \<Rightarrow> JObj []
           | Some d \<Rightarrow> if d = JUndefined then JObj [] else d))"

text \<open>
  The key given to \<^verbatim>\<open>useSWR\<close>: \<open>None\<close> is \<^verbatim>\<open>undefined\<close>, for which no request is
  made.  \<open>stringify\<close> is \<^verbatim>\<open>JSON.stringify\<close>.
\<close>

definition swr_key :: "(jsval \<Rightarrow> string) \<Rightarrow> options \<Rightarrow> hook_state \<Rightarrow> jsval list option" where
  "swr_key stringify opts s =
     (if isCacheKeyUndefined s then None
      else Some
        [(case cacheKey opts of None \<Rightarrow> JUndefined | Some k \<Rightarrow> JStr k),
         JNum (of_int (current s)),
         JNum (of_int (pageSize s)),
         JStr (stringify (JObj (submittedFilters s))),
         JStr (stringify (sorter s)),
         JStr (staleTime s)])"

subsection \<open>The shared cache and the retry handler\<close>

text \<open>A key of the shared cache, as the filter of \<^verbatim>\<open>mutate\<close> receives it.\<close>

datatype cache_key = StrKey string | ArrKey "jsval list" | OtherKey

text \<open>\<^verbatim>\<open>s.startsWith(p)\<close> and \<^verbatim>\<open>s.includes(p)\<close>\<close>

fun startsWith :: "string \<Rightarrow> string \<Rightarrow> bool" where
  "startsWith s [] = True"
| "startsWith [] (c # cs) = False"
| "startsWith (x # xs) (c # cs) = (x = c \<and> startsWith xs cs)"

fun str_includes :: "string \<Rightarrow> string \<Rightarrow> bool" where
  "str_includes [] p = (p = [])"
| "str_includes (x # xs) p = (startsWith (x # xs) p \<or> str_includes xs p)"

text \<open>The filter \<^verbatim>\<open>clearAllRelatedCache\<close> passes to \<^verbatim>\<open>mutate\<close>.\<close>

definition key_matches :: "string option \<Rightarrow> cache_key \<Rightarrow> bool" where
  "key_matches ck key =
     (case ck of
        None \<Rightarrow> False
      | Some c \<Rightarrow>
          if c = [] then False
          else (case key of
                  StrKey k \<Rightarrow> startsWith k c
                | ArrKey ks \<Rightarrow> (case ks of JStr k0 # _ \<Rightarrow> str_includes k0 c | _ \<Rightarrow> False)
                | OtherKey \<Rightarrow> False))"

text \<open>
  \<^verbatim>\<open>mutate(filter, undefined, { revalidate: false })\<close> stores \<^verbatim>\<open>undefined\<close> as the
  data of every entry whose key the filter accepts.
\<close>

definition clearAllRelatedCache :: "options \<Rightarrow> (cache_key \<times> jsval) list \<Rightarrow> (cache_key \<times> jsval) list" where
  "clearAllRelatedCache opts entries =
     map (\<lambda>(key, v). if key_matches (cacheKey opts) key then (key, JUndefined) else (key, v)) entries"

text \<open>
  In the words of the specification: a key is prefixed by the cache key when it is a
  string that starts with it, or an array whose first component is such a string; the
  entries under a prefix are invalidated when each of them holds \<^verbatim>\<open>undefined\<close>.
\<close>

definition prefixed_by :: "string \<Rightarrow> cache_key \<Rightarrow> bool" where
  "prefixed_by c key =
     (case key of
        StrKey k \<Rightarrow> startsWith k c
      | ArrKey ks \<Rightarrow> (case ks of JStr k0 # _ \<Rightarrow> startsWith k0 c | _ \<Rightarrow> False)
      | OtherKey \<Rightarrow> False)"

definition invalidated_under :: "string \<Rightarrow> (cache_key \<times> jsval) list \<Rightarrow> bool" where
  "invalidated_under c entries = list_all (\<lambda>(key, v). prefixed_by c key \<longrightarrow> v = JUndefined) entries"

text \<open>
  What the retry handler acts on: the state of the hook, the shared cache, and the timers
  it has set (delay in milliseconds, and the \<^verbatim>\<open>retryCount\<close> handed to
  \<^verbatim>\<open>revalidate\<close> when the timer fires).
\<close>

record world =
  state :: hook_state
  cache :: "(cache_key \<times> jsval) list"
  timers :: "(nat \<times> nat) list"

definition onErrorRetry :: "options \<Rightarrow> nat \<Rightarrow> world \<Rightarrow> world" where
  "onErrorRetry opts retryCount w =
     (let w1 = w\<lparr> state := (state w)\<lparr> isRetrying := True \<rparr> \<rparr>
      in if retryCount \<ge> 2 then
           w1\<lparr> cache := clearAllRelatedCache opts (cache w1),
               state := (state w1)\<lparr> isCacheKeyUndefined := True, isRetrying := False \<rparr> \<rparr>
         else w1\<lparr> timers := timers w1 @ [(3000, retryCount)] \<rparr>)"

definition onSuccess :: "world \<Rightarrow> world" where
  "onSuccess w = w\<lparr> state := (state w)\<lparr> isRetrying := False \<rparr> \<rparr>"

text \<open>
  The library's side of the retry loop: a failed request made with options
  \<^verbatim>\<open>{ retryCount: r }\<close> (\<open>r = 0\<close> for a request that is not a retry) calls the handler
  with \<^verbatim>\<open>retryCount\<close> \<open>r + 1\<close>, and the next request is the one the handler's timer
  starts, if it set one.  \<open>consecutive_failures opts n r w\<close> lets \<open>n\<close> requests in a
  row fail.
\<close>

fun consecutive_failures :: "options \<Rightarrow> nat \<Rightarrow> nat \<Rightarrow> world \<Rightarrow> world" where
  "consecutive_failures opts 0 r w = w"
| "consecutive_failures opts (Suc n) r w =
     (let w' = onErrorRetry opts (r + 1) w
      in if length (timers w') > length (timers w)
         then consecutive_failures opts n (snd (last (timers w'))) w'
         else w')"

subsection \<open>Everything that can happen to the hook\<close>

text \<open>
  The calls of the handlers the hook hands out (\<^verbatim>\<open>clearCache\<close> is
  \<^verbatim>\<open>clearAllRelatedCache\<close>) and the two callbacks of \<^verbatim>\<open>useSWR\<close>.
  A \<^verbatim>\<open>handleTableChange\<close> that raises has set the cells it set before raising.
\<close>

datatype event =
    SubmitFilters nat "(string \<times> jsval) list"
  | PaginationChange int int
  | TableChange int int jsval
  | UpdateColumnVisibility string bool "int option"
  | ResetColumnVisibility
  | FetchError nat
  | FetchSuccess
  | ClearCache

fun step :: "options \<Rightarrow> event \<Rightarrow> world \<Rightarrow> world" where
  "step opts (SubmitFilters now f) w = w\<lparr> state := submitFilters opts now f (state w) \<rparr>"
| "step opts (PaginationChange p n) w = w\<lparr> state := handlePaginationChange p n (state w) \<rparr>"
| "step opts (TableChange p n srt) w = w\<lparr> state := snd (handleTableChange p n srt (state w)) \<rparr>"
| "step opts (UpdateColumnVisibility k h ord) w = w\<lparr> state := updateColumnVisibility k h ord (state w) \<rparr>"
| "step opts ResetColumnVisibility w = w\<lparr> state := resetColumnVisibility opts (state w) \<rparr>"
| "step opts (FetchError retryCount) w = onErrorRetry opts retryCount w"
| "step opts FetchSuccess w = onSuccess w"
| "step opts ClearCache w = w\<lparr> cache := clearAllRelatedCache opts (cache w) \<rparr>"

definition run :: "options \<Rightarrow> event list \<Rightarrow> world \<Rightarrow> world" where
  "run opts evs w = fold (step opts) evs w"

definition is_submit :: "event \<Rightarrow> bool" where
  "is_submit e = (case e of SubmitFilters now f \<Rightarrow> True | _ \<Rightarrow> False)"

section \<open>The presets hook (usePresets)\<close>

text \<open>
  A preset entry: its id, its name and its data (a JSON text as the server stores it,
  a value once parsed); the hook reads no other property of an entry.  A parsed entry is
  the entry spread into a new object with the extra property \<^verbatim>\<open>parsedData\<close>.
\<close>

record 'd preset =
  presetId :: string
  name :: string
  data :: 'd

record 'd parsed_preset = "'d preset" +
  parsedData :: jsval

text \<open>
  The number a value stands for in \<^verbatim>\<open>v > 0\<close> and \<^verbatim>\<open>b - a\<close>; \<open>None\<close> is
  \<^verbatim>\<open>NaN\<close>.  \<open>coerce\<close> is the language's conversion of a string, an array or an
  object to a number.
\<close>

fun ToNumber :: "(jsval \<Rightarrow> rat option) \<Rightarrow> jsval \<Rightarrow> rat option" where
  "ToNumber coerce JUndefined = None"
| "ToNumber coerce JNull = Some 0"
| "ToNumber coerce (JBool b) = Some (if b then 1 else 0)"
| "ToNumber coerce (JNum n) = Some n"
| "ToNumber coerce v = coerce v"

text \<open>\<^verbatim>\<open>preset?.parsedData?.lastUpdated\<close> and the test \<^verbatim>\<open>... > 0\<close> on it.\<close>

definition lastUpdated :: "('d, 'a) parsed_preset_scheme \<Rightarrow> jsval" where
  "lastUpdated p = get (parsedData p) ''lastUpdated''"

definition lastUpdated_positive :: "(jsval \<Rightarrow> rat option) \<Rightarrow> ('d, 'a) parsed_preset_scheme \<Rightarrow> bool" where
  "lastUpdated_positive coerce p =
     (case ToNumber coerce (lastUpdated p) of None \<Rightarrow> False | Some n \<Rightarrow> n > 0)"

text \<open>The number the comparator \<^verbatim>\<open>(a, b) => b.parsedData.lastUpdated - a.parsedData.lastUpdated\<close> subtracts.\<close>

definition timestamp :: "(jsval \<Rightarrow> rat option) \<Rightarrow> ('d, 'a) parsed_preset_scheme \<Rightarrow> rat" where
  "timestamp coerce p = (case ToNumber coerce (lastUpdated p) of None \<Rightarrow> 0 | Some n \<Rightarrow> n)"

text \<open>
  The \<^verbatim>\<open>map\<close> callback: \<open>parse\<close> is \<^verbatim>\<open>JSON.parse\<close>, \<open>None\<close> when it throws, and
  an entry whose data does not parse becomes \<^verbatim>\<open>null\<close> (\<open>None\<close>).
\<close>

definition parse_preset :: "(string \<Rightarrow> jsval option) \<Rightarrow> string preset \<Rightarrow> string parsed_preset option" where
  "parse_preset parse p =
     (case parse (data p) of
        Some parsed \<Rightarrow>
          Some \<lparr> presetId = presetId p, name = name p, data = data p, parsedData = parsed \<rparr>
      | None \<Rightarrow> None)"

text \<open>
  \<^verbatim>\<open>.map(...).filter(Boolean).filter(preset => preset?.parsedData?.lastUpdated > 0)\<close>
\<close>

definition parsedPresets :: "(string \<Rightarrow> jsval option) \<Rightarrow> (jsval \<Rightarrow> rat option) \<Rightarrow> string preset list \<Rightarrow> string parsed_preset list" where
  "parsedPresets parse coerce presets =
     filter (lastUpdated_positive coerce)
       (map the (filter (\<lambda>r. r \<noteq> None) (map (parse_preset parse) presets)))"

text \<open>
  The \<^verbatim>\<open>useMemo\<close> body of \<^verbatim>\<open>defaultPreset\<close>.  \<^verbatim>\<open>Array.prototype.sort\<close> is stable,
  and on entries with a positive timestamp the comparator is the descending order of
  the timestamps.  The result is the first sorted entry with its data replaced by the
  parsed data.
\<close>

definition defaultPreset :: "(string \<Rightarrow> jsval option) \<Rightarrow> (jsval \<Rightarrow> rat option) \<Rightarrow> int option \<Rightarrow> string preset list \<Rightarrow> jsval parsed_preset option" where
  "defaultPreset parse coerce presetKind presets =
     (if presetKind = None \<or> length presets = 0 then None
      else
        (let ps = parsedPresets parse coerce presets
         in if length ps = 0 then None
            else
              (case sort_key (\<lambda>p. - timestamp coerce p) ps of
                 [] \<Rightarrow> None
               | mostRecent # _ \<Rightarrow>
                   Some \<lparr> presetId = presetId mostRecent, name = name mostRecent,
                          data = parsedData mostRecent, parsedData = parsedData mostRecent \<rparr>)))"

text \<open>
  \<^verbatim>\<open>addPreset({ name, data })\<close> on the cached list (\<open>None\<close>: nothing cached yet).
  \<open>addPresetFn\<close> is the fourth argument of the hook, \<open>None\<close> when the caller passes
  none; it resolves to the new entry or rejects.  The result is the new entry and the
  list the cache is populated with, without revalidation.
\<close>

definition addPreset :: "int option \<Rightarrow> (int \<times> string \<times> string \<Rightarrow> js_error + string preset) option \<Rightarrow> (jsval \<Rightarrow> string) \<Rightarrow> string \<times> jsval \<Rightarrow> string preset list option \<Rightarrow> js_error + (string preset \<times> string preset list)" where
  "addPreset presetKind addPresetFn stringify arg currentData =
     (case presetKind of
        None \<Rightarrow> Inl (Error ''PresetKind is required to add presets'')
      | Some kind \<Rightarrow>
          (case addPresetFn of
             None \<Rightarrow> Inl TypeError
           | Some add \<Rightarrow>
               (case add (kind, fst arg, stringify (snd arg)) of
                  Inl err \<Rightarrow> Inl err
                | Inr newPreset \<Rightarrow>
                    Inr (newPreset,
                         (case currentData of
                            Some cur \<Rightarrow> cur @ [newPreset]
                          | None \<Rightarrow> [newPreset])))))"

text \<open>
  \<^verbatim>\<open>deletePreset(presetId)\<close>.  The request goes through \<^verbatim>\<open>agent.deletePreset\<close>;
  the module neither imports nor declares \<^verbatim>\<open>agent\<close>, so it is a parameter here,
  \<open>None\<close> when the name is unbound.
\<close>

definition deletePreset :: "int option \<Rightarrow> (string \<Rightarrow> js_error + unit) option \<Rightarrow> string \<Rightarrow> string preset list option \<Rightarrow> js_error + string preset list" where
  "deletePreset presetKind agent_deletePreset pid currentPresets =
     (case presetKind of
        None \<Rightarrow> Inl (Error ''PresetKind is required to delete presets'')
      | Some kind \<Rightarrow>
          (case agent_deletePreset of
             None \<Rightarrow> Inl ReferenceError
           | Some del \<Rightarrow>
               (case del pid of
                  Inl err \<Rightarrow> Inl err
                | Inr u \<Rightarrow>
                    Inr (case currentPresets of
                           Some cur \<Rightarrow> filter (\<lambda>p. presetId p \<noteq> pid) cur
                         | None \<Rightarrow> []))))"

text \<open>
  The object the hook returns, property by property: a value, or a callback of the hook
  under its name.
\<close>

datatype member =
    MPresets "string preset list"
  | MDefault "jsval parsed_preset option"
  | MBool bool
  | MValue jsval
  | MCallback string

definition usePresets :: "(string \<Rightarrow> jsval option) \<Rightarrow> (jsval \<Rightarrow> rat option) \<Rightarrow> int option \<Rightarrow> string preset list \<Rightarrow> jsval \<Rightarrow> bool \<Rightarrow> bool \<Rightarrow> (string \<times> member) list" where
  "usePresets parse coerce presetKind presets error isValidating isLoading =
     [(''presets'', MPresets (if presetKind \<noteq> None then presets else [])),
      (''defaultPreset'',
         MDefault (if presetKind \<noteq> None
                   then defaultPreset parse coerce presetKind presets else None)),
      (''isLoading'', MBool (if presetKind \<noteq> None then isValidating \<or> isLoading else False)),
      (''error'', MValue (if presetKind \<noteq> None then error else JNull)),
      (''getPresets'', MCallback ''getPresets''),
      (''presetsEnabled'', MBool (presetKind \<noteq> None))]"

text \<open>
  The page builder's use of the hook: it destructures these properties of the returned
  object, and hands \<^verbatim>\<open>addPreset\<close> and \<^verbatim>\<open>deletePreset\<close> on to the presets panel.
\<close>

definition pageBuilder_reads :: "string list" where
  "pageBuilder_reads =
     [''presets'', ''defaultPreset'', ''isLoading'', ''addPreset'', ''deletePreset'',
      ''getPresets'', ''presetsEnabled'']"

section \<open>Example values\<close>

text \<open>A hook over a two-column table of users, and a state of it on page 3.\<close>

definition example_options :: options where
  "example_options =
     \<lparr> initialData = None,
       initialColumns =
         Some [\<lparr> dataIndex = ''name'', title = ''Name'', hidden = None, order = None \<rparr>,
               \<lparr> dataIndex = ''age'', title = ''Age'', hidden = None, order = None \<rparr>],
       initialFilters = Some [(''status'', JStr ''active''), (''q'', JStr [])],
       cacheKey = Some ''users'',
       initialPage = None,
       initialPageSize = None,
       initialSorter = None,
       defaultStale = None \<rparr>"

definition example_state :: hook_state where
  "example_state =
     \<lparr> isCacheKeyUndefined = False,
       columns =
         [\<lparr> dataIndex = ''name'', title = ''Name'', hidden = None, order = Some 0 \<rparr>,
          \<lparr> dataIndex = ''age'', title = ''Age'', hidden = None, order = Some 1 \<rparr>],
       current = 3,
       pageSize = 25,
       submittedFilters = [(''status'', JStr ''active'')],
       sorter = JObj [(''columnKey'', JStr ''age''), (''order'', JStr ''ascend'')],
       staleTime = ''filters_5666666'',
       isRetrying = False \<rparr>"

text \<open>A filter form with an open date range inside a nested group.\<close>

definition example_filters :: "(string \<times> jsval) list" where
  "example_filters =
     [(''q'', JStr []),
      (''created'', JObj [(''range'', JArr [JNull, JStr []]), (''by'', JNull)]),
      (''empty'', JObj [(''x'', JNull)]),
      (''status'', JStr ''active'')]"

text \<open>
  A server that answers an export request with one row per filter, followed by the order
  column and the direction it was asked for, and rejects every paged request.
\<close>

definition example_fetchData :: "FetchDataParams \<Rightarrow> js_error + jsval" where
  "example_fetchData req =
     (if pagination_pageSize req = 0
      then Inr (JObj [(''mainResult'',
                       JArr (map snd (filters req)
                             @ [sorter_orderColumn req, JNum (of_int (sorter_orderDir req))]))])
      else Inl (Rejected (JStr ''paged'')))"



text \<open>
  The shared cache after page 3 of the users table has been fetched, with an entry of
  another hook under the same prefix and one under a different prefix.
\<close>

definition example_world :: world where
  "example_world =
     \<lparr> state = example_state,
       cache =
         [(ArrKey [JStr ''users'', JNum 3, JNum 25, JStr ''{status:active}'',
                   JStr ''{columnKey:age,order:ascend}'', JStr ''filters_5666666''],
           JObj [(''mainResult'', JArr [JStr ''row'']), (''mainResultCount'', JNum 51)]),
          (StrKey ''users-count'', JNum 51),
          (StrKey ''orders'', JNum 7)],
       timers = [] \<rparr>"

text \<open>The same hook mounted with the empty string as its cache key, and its cache.\<close>

definition empty_key_options :: options where
  "empty_key_options = example_options\<lparr> cacheKey := Some [] \<rparr>"

definition empty_key_world :: world where
  "empty_key_world =
     \<lparr> state = example_state,
       cache =
         [(ArrKey [JStr [], JNum 3, JNum 25, JStr ''{status:active}'',
                   JStr ''{columnKey:age,order:ascend}'', JStr ''filters_5666666''],
           JObj [(''mainResult'', JArr [JStr ''row''])])],
       timers = [] \<rparr>"

text \<open>
  Five stored presets and what \<^verbatim>\<open>JSON.parse\<close> makes of their data: the second is
  cut off and does not parse, the fourth has never been saved, the fifth is \<^verbatim>\<open>null\<close>.
\<close>

definition example_parse :: "string \<Rightarrow> jsval option" where
  "example_parse text =
     map_of
       [(''{lastUpdated:5}'', JObj [(''lastUpdated'', JNum 5)]),
        (''{lastUpdated:9,filters:{status:active}}'',
           JObj [(''lastUpdated'', JNum 9), (''filters'', JObj [(''status'', JStr ''active'')])]),
        (''{lastUpdated:0}'', JObj [(''lastUpdated'', JNum 0)]),
        (''null'', JNull)]
       text"

definition example_presets :: "string preset list" where
  "example_presets =
     [\<lparr> presetId = ''1'', name = ''Old'', data = ''{lastUpdated:5}'' \<rparr>,
      \<lparr> presetId = ''2'', name = ''Broken'', data = ''{lastUpdated:'' \<rparr>,
      \<lparr> presetId = ''3'', name = ''Recent'', data = ''{lastUpdated:9,filters:{status:active}}'' \<rparr>,
      \<lparr> presetId = ''4'', name = ''Unsaved'', data = ''{lastUpdated:0}'' \<rparr>,
      \<lparr> presetId = ''5'', name = ''Null'', data = ''null'' \<rparr>]"

text \<open>No string, array or object in the examples stands for a number.\<close>

definition example_coerce :: "jsval \<Rightarrow> rat option" where
  "example_coerce v = None"

section \<open>Properties of response normalization\<close>

lemma extract_first_match: "extractDataFromResponse d = first_match d"
  by (simp add: extractDataFromResponse_def first_match_def envelope_shapes_def coalesce_def)

text \<open>
  Claim C3.  For any array \<open>xs\<close> the three envelopes \<^verbatim>\<open>{response:{mainResult: xs}}\<close>,
  \<^verbatim>\<open>{mainResult: xs}\<close> and \<^verbatim>\<open>{data: xs}\<close> all normalize to \<open>xs\<close>; the result is
  always the first present shape in the order of priority; and an input none of whose
  shapes is present, \<^verbatim>\<open>null\<close> and \<^verbatim>\<open>undefined\<close> among them, normalizes to the empty
  array.
\<close>

theorem extractDataFromResponse_envelopes:
  "extractDataFromResponse (JObj [(''response'', JObj [(''mainResult'', JArr xs)])]) = JArr xs
   \<and> extractDataFromResponse (JObj [(''mainResult'', JArr xs)]) = JArr xs
   \<and> extractDataFromResponse (JObj [(''data'', JArr xs)]) = JArr xs
   \<and> extractDataFromResponse d = first_match d
   \<and> ((\<forall>v \<in> set (envelope_shapes d). nullish v) \<longrightarrow> extractDataFromResponse d = JArr [])
   \<and> extractDataFromResponse JNull = JArr []
   \<and> extractDataFromResponse JUndefined = JArr []"
proof -
  have none: "extractDataFromResponse d = JArr []"
    if "\<forall>v \<in> set (envelope_shapes d). nullish v"
  proof -
    from that have "find (\<lambda>v. \<not> nullish v) (envelope_shapes d) = None"
      by (simp add: find_None_iff)
    then show ?thesis
      by (simp add: extract_first_match first_match_def)
  qed
  have e1: "extractDataFromResponse (JObj [(''response'', JObj [(''mainResult'', JArr xs)])]) = JArr xs"
    by (simp add: extractDataFromResponse_def coalesce_def)
  have e2: "extractDataFromResponse (JObj [(''mainResult'', JArr xs)]) = JArr xs"
    by (simp add: extractDataFromResponse_def coalesce_def)
  have e3: "extractDataFromResponse (JObj [(''data'', JArr xs)]) = JArr xs"
    by (simp add: extractDataFromResponse_def coalesce_def)
  have n1: "extractDataFromResponse JNull = JArr []"
    by (simp add: extractDataFromResponse_def coalesce_def)
  have n2: "extractDataFromResponse JUndefined = JArr []"
    by (simp add: extractDataFromResponse_def coalesce_def)
  from none e1 e2 e3 n1 n2 show ?thesis
    by (simp add: extract_first_match)
qed

theorem extractDataFromResponse_envelopes_witness:
  "extractDataFromResponse (JObj [(''total'', JNum 3)]) = JArr []
   \<and> extractDataFromResponse (JObj [(''data'', JArr [JNum 1]), (''mainResult'', JArr [JNum 2])])
       = JArr [JNum 2]"
proof -
  have "\<forall>v \<in> set (envelope_shapes (JObj [(''total'', JNum 3)])). nullish v"
    by (simp add: envelope_shapes_def)
  with extractDataFromResponse_envelopes [of "[]" "JObj [(''total'', JNum 3)]"]
  have a: "extractDataFromResponse (JObj [(''total'', JNum 3)]) = JArr []"
    by blast
  have b: "extractDataFromResponse (JObj [(''data'', JArr [JNum 1]), (''mainResult'', JArr [JNum 2])])
       = JArr [JNum 2]"
    using extractDataFromResponse_envelopes
      [of "[]" "JObj [(''data'', JArr [JNum 1]), (''mainResult'', JArr [JNum 2])]"]
    by (simp add: first_match_def envelope_shapes_def)
  from a b show ?thesis by simp
qed

section \<open>Properties of the table query hook\<close>

text \<open>The stale window of the example state: five-minute buckets, in late 2023.\<close>

lemma getTimeWindowKey_example:
  "getTimeWindowKey None ''filters_'' 1700000000000 = staleTime example_state"
  by (simp add: getTimeWindowKey_def example_state_def show_nat.simps)

lemma read_prop_simps:
  "nullish v \<Longrightarrow> read_prop v k = Inl TypeError"
  "\<not> nullish v \<Longrightarrow> read_prop v k = Inr (get v k)"
  by (simp_all add: read_prop_def)

lemma orderColumn_object:
  "\<not> nullish srt \<Longrightarrow> orderColumn srt = Inr (js_or (get srt ''columnKey'') (get srt ''field''))"
  by (simp add: orderColumn_def read_prop_simps js_or_def)

lemma orderDir_object:
  "\<not> nullish srt \<Longrightarrow>
     orderDir srt =
       Inr (if truthy (get srt ''order'')
            then (if get srt ''order'' = JStr ''ascend'' then 1 else - 1)
            else - 1)"
  by (simp add: orderDir_def read_prop_simps)

lemma step_sorter:
  "\<not> nullish (sorter (state w)) \<Longrightarrow> \<not> nullish (sorter (state (step opts e w)))"
  by (cases e)
     (simp_all add: submitFilters_def handlePaginationChange_def handleTableChange_def
        updateColumnVisibility_def resetColumnVisibility_def onErrorRetry_def onSuccess_def
        Let_def split: jsval.splits list.splits)

lemma run_sorter:
  "\<not> nullish (sorter (state w)) \<Longrightarrow> \<not> nullish (sorter (state (run opts evs w)))"
  unfolding run_def
  by (induction evs arbitrary: w) (simp_all add: step_sorter)

lemma reachable_sorter:
  "\<not> nullish (sorter (state (run opts evs
       \<lparr> state = initial_state opts now, cache = entries, timers = ts \<rparr>)))"
  by (rule run_sorter) (simp add: initial_state_def)

text \<open>
  Claim C2.  Whatever the filter object, the clock reading, the options and the state
  before, the state after \<^verbatim>\<open>submitFilters\<close> has page (\<open>current\<close>) 1, and a
  request the fetcher then makes has page 1; in every state the hook reaches it makes
  one.
\<close>

theorem submitFilters_page_one:
  "current (submitFilters opts now newFilters s) = 1
   \<and> map_sum id (\<lambda>req. req\<lparr> pagination_page := 1 \<rparr>)
         (fetcher_request (submitFilters opts now newFilters s))
       = fetcher_request (submitFilters opts now newFilters s)
   \<and> (\<exists>req.
        fetcher_request
          (submitFilters opts now newFilters
             (state (run opts evs
                \<lparr> state = initial_state opts now', cache = entries, timers = ts \<rparr>)))
          = Inr req
        \<and> pagination_page req = 1)"
proof -
  let ?t = "state (run opts evs \<lparr> state = initial_state opts now', cache = entries, timers = ts \<rparr>)"
  have "\<not> nullish (sorter (submitFilters opts now newFilters ?t))"
    using reachable_sorter [of opts evs now' entries ts]
    by (simp add: submitFilters_def Let_def)
  then have "\<exists>req. fetcher_request (submitFilters opts now newFilters ?t) = Inr req
      \<and> pagination_page req = 1"
    by (simp add: fetcher_request_def orderColumn_object orderDir_object submitFilters_def Let_def)
  moreover have "current (submitFilters opts now newFilters s) = 1"
    by (simp add: submitFilters_def Let_def)
  moreover have "map_sum id (\<lambda>req. req\<lparr> pagination_page := 1 \<rparr>)
         (fetcher_request (submitFilters opts now newFilters s))
       = fetcher_request (submitFilters opts now newFilters s)"
    by (simp add: submitFilters_def fetcher_request_def Let_def split: sum.splits)
  ultimately show ?thesis by blast
qed

text \<open>
  Claim C10.  \<^verbatim>\<open>submitFilters\<close> leaves the page size, the sorter and the columns as
  they were: the state after it is the state before with new values in the submitted
  filters, the page, the stale window, the suppression flag and the retrying flag, and
  in nothing else.
\<close>

theorem submitFilters_frame:
  "pageSize (submitFilters opts now newFilters s) = pageSize s
   \<and> sorter (submitFilters opts now newFilters s) = sorter s
   \<and> columns (submitFilters opts now newFilters s) = columns s
   \<and> (\<exists>f p t u r.
        submitFilters opts now newFilters s =
          s\<lparr> submittedFilters := f, current := p, staleTime := t,
             isCacheKeyUndefined := u, isRetrying := r \<rparr>)"
proof -
  have "\<exists>f p t u r.
        submitFilters opts now newFilters s =
          s\<lparr> submittedFilters := f, current := p, staleTime := t,
             isCacheKeyUndefined := u, isRetrying := r \<rparr>"
    unfolding submitFilters_def Let_def by blast
  then show ?thesis
    by (simp add: submitFilters_def Let_def)
qed

text \<open>
  Claim C5.  \<^verbatim>\<open>updateColumnVisibility\<close> and \<^verbatim>\<open>resetColumnVisibility\<close> change the
  columns and nothing else: the key given to \<^verbatim>\<open>useSWR\<close> and each of its components
  (cache key, page, page size, submitted filters, sorter, stale window, suppression
  flag) are the same after as before, and so is the request of the fetcher; with the
  key unchanged no request is made.
\<close>

theorem column_visibility_frame:
  "swr_key stringify opts (updateColumnVisibility key hide ord s) = swr_key stringify opts s
   \<and> swr_key stringify opts (resetColumnVisibility opts' s) = swr_key stringify opts s
   \<and> fetcher_request (updateColumnVisibility key hide ord s) = fetcher_request s
   \<and> fetcher_request (resetColumnVisibility opts' s) = fetcher_request s
   \<and> (\<exists>cols. updateColumnVisibility key hide ord s = s\<lparr> columns := cols \<rparr>)
   \<and> (\<exists>cols. resetColumnVisibility opts' s = s\<lparr> columns := cols \<rparr>)
   \<and> (let s' = updateColumnVisibility key hide ord s
      in current s' = current s \<and> pageSize s' = pageSize s
         \<and> submittedFilters s' = submittedFilters s \<and> sorter s' = sorter s
         \<and> staleTime s' = staleTime s \<and> isCacheKeyUndefined s' = isCacheKeyUndefined s
         \<and> isRetrying s' = isRetrying s)
   \<and> (let s' = resetColumnVisibility opts' s
      in current s' = current s \<and> pageSize s' = pageSize s
         \<and> submittedFilters s' = submittedFilters s \<and> sorter s' = sorter s
         \<and> staleTime s' = staleTime s \<and> isCacheKeyUndefined s' = isCacheKeyUndefined s
         \<and> isRetrying s' = isRetrying s)"
proof -
  have u: "\<exists>cols. updateColumnVisibility key hide ord s = s\<lparr> columns := cols \<rparr>"
    unfolding updateColumnVisibility_def by blast
  have r: "\<exists>cols. resetColumnVisibility opts' s = s\<lparr> columns := cols \<rparr>"
    unfolding resetColumnVisibility_def by blast
  from u r show ?thesis
    by (simp add: updateColumnVisibility_def resetColumnVisibility_def swr_key_def
        fetcher_request_def Let_def cong: sum.case_cong)
qed

lemma exportFn_object:
  "\<not> nullish (sorter s) \<Longrightarrow>
     exportFn fetchData s =
       (case fetchData
               \<lparr> filters = submittedFilters s,
                 pagination_page = 1,
                 pagination_pageSize = 0,
                 sorter_orderColumn = js_or (get (sorter s) ''columnKey'') (get (sorter s) ''field''),
                 sorter_orderDir =
                   (if truthy (get (sorter s) ''order'')
                    then (if get (sorter s) ''order'' = JStr ''ascend'' then 1 else - 1)
                    else - 1) \<rparr> of
          Inl err \<Rightarrow> Inl err
        | Inr rawData \<Rightarrow> Inr (extractDataFromResponse rawData))"
  by (simp add: exportFn_def orderColumn_object orderDir_object)

lemma exportFn_null_sorter:
  "nullish (sorter s) \<Longrightarrow> exportFn fetchData s = Inl TypeError"
  by (simp add: exportFn_def orderColumn_def read_prop_simps)

lemma exportFn_fetcher:
  "exportFn fetchData s =
     (case fetcher_request s of
        Inl err \<Rightarrow> Inl err
      | Inr req \<Rightarrow>
          (case fetchData (req\<lparr> pagination_page := 1, pagination_pageSize := 0 \<rparr>) of
             Inl err \<Rightarrow> Inl err
           | Inr rawData \<Rightarrow> Inr (extractDataFromResponse rawData)))"
  by (simp add: exportFn_def fetcher_request_def split: sum.splits)

text \<open>
  Claim C4.  In every state the hook reaches (and in any state whose sorter is not
  \<^verbatim>\<open>null\<close> or \<^verbatim>\<open>undefined\<close>, which no state the hook reaches is) \<^verbatim>\<open>exportFn\<close>
  calls \<^verbatim>\<open>fetchData\<close> with the submitted filters of the state, page 1 and page size
  0, and the order column and direction read from the sorter of the state: the request
  of the fetcher with only the pagination replaced.  The page and page size of the
  state have no influence on the outcome, the outcome depends on \<^verbatim>\<open>fetchData\<close>
  through that one request only, and what the request resolves to goes through the
  normalization that \<^verbatim>\<open>dataSource\<close> applies to the data of the hook.  With a sorter
  that is \<^verbatim>\<open>null\<close> or \<^verbatim>\<open>undefined\<close> the call raises before any request is made.
\<close>

theorem exportFn_request:
  "(let t = state (run opts evs \<lparr> state = initial_state opts now, cache = entries, timers = ts \<rparr>)
    in exportFn fetchData t =
         (case fetchData
                 \<lparr> filters = submittedFilters t,
                   pagination_page = 1,
                   pagination_pageSize = 0,
                   sorter_orderColumn =
                     js_or (get (sorter t) ''columnKey'') (get (sorter t) ''field''),
                   sorter_orderDir =
                     (if truthy (get (sorter t) ''order'')
                      then (if get (sorter t) ''order'' = JStr ''ascend'' then 1 else - 1)
                      else - 1) \<rparr> of
            Inl err \<Rightarrow> Inl err
          | Inr rawData \<Rightarrow> Inr (extractDataFromResponse rawData)))
   \<and> (\<not> nullish (sorter s) \<longrightarrow>
        exportFn fetchData s =
          (case fetchData
                  \<lparr> filters = submittedFilters s,
                    pagination_page = 1,
                    pagination_pageSize = 0,
                    sorter_orderColumn =
                      js_or (get (sorter s) ''columnKey'') (get (sorter s) ''field''),
                    sorter_orderDir =
                      (if truthy (get (sorter s) ''order'')
                       then (if get (sorter s) ''order'' = JStr ''ascend'' then 1 else - 1)
                       else - 1) \<rparr> of
             Inl err \<Rightarrow> Inl err
           | Inr rawData \<Rightarrow> Inr (extractDataFromResponse rawData)))
   \<and> (nullish (sorter s) \<longrightarrow> exportFn fetchData s = Inl TypeError)
   \<and> exportFn fetchData s =
       (case fetcher_request s of
          Inl err \<Rightarrow> Inl err
        | Inr req \<Rightarrow>
            (case fetchData (req\<lparr> pagination_page := 1, pagination_pageSize := 0 \<rparr>) of
               Inl err \<Rightarrow> Inl err
             | Inr rawData \<Rightarrow> Inr (extractDataFromResponse rawData)))
   \<and> exportFn fetchData (s\<lparr> current := p, pageSize := n \<rparr>) = exportFn fetchData s
   \<and> ((\<forall>req. fetcher_request s = Inr req \<longrightarrow>
          fetchData' (req\<lparr> pagination_page := 1, pagination_pageSize := 0 \<rparr>)
            = fetchData (req\<lparr> pagination_page := 1, pagination_pageSize := 0 \<rparr>))
      \<longrightarrow> exportFn fetchData' s = exportFn fetchData s)
   \<and> (fetcher_request s = Inr req
        \<and> fetchData (req\<lparr> pagination_page := 1, pagination_pageSize := 0 \<rparr>) = Inr rawData
        \<and> \<not> nullish rawData
      \<longrightarrow> exportFn fetchData s = Inr (dataSource opts' rawData))"
proof -
  have a: "\<not> nullish (sorter (state (run opts evs
       \<lparr> state = initial_state opts now, cache = entries, timers = ts \<rparr>)))"
    by (rule reachable_sorter)
  have b: "exportFn fetchData (s\<lparr> current := p, pageSize := n \<rparr>) = exportFn fetchData s"
    by (simp add: exportFn_def cong: sum.case_cong)
  have c: "exportFn fetchData' s = exportFn fetchData s"
    if "\<forall>req. fetcher_request s = Inr req \<longrightarrow>
          fetchData' (req\<lparr> pagination_page := 1, pagination_pageSize := 0 \<rparr>)
            = fetchData (req\<lparr> pagination_page := 1, pagination_pageSize := 0 \<rparr>)"
    using that by (simp add: exportFn_fetcher split: sum.splits)
  have d: "exportFn fetchData s = Inr (dataSource opts' rawData)"
    if "fetcher_request s = Inr req"
      "fetchData (req\<lparr> pagination_page := 1, pagination_pageSize := 0 \<rparr>) = Inr rawData"
      "\<not> nullish rawData"
    using that by (simp add: exportFn_fetcher dataSource_def coalesce_def)
  note e = exportFn_object [OF a, of fetchData]
  note f = exportFn_object [of s fetchData]
  note g = exportFn_null_sorter [of s fetchData]
  note h = exportFn_fetcher [of fetchData s]
  show ?thesis
    unfolding Let_def
    by (intro conjI impI e f g h b c d) auto
qed

theorem exportFn_request_witness:
  "\<not> nullish (sorter example_state)
   \<and> exportFn example_fetchData example_state
     = Inr (JArr [JStr ''active'', JStr ''age'', JNum 1])
   \<and> exportFn example_fetchData (example_state\<lparr> sorter := JObj [(''field'', JStr ''name'')] \<rparr>)
     = Inr (JArr [JStr ''active'', JStr ''name'', JNum (- 1)])
   \<and> exportFn example_fetchData (example_state\<lparr> sorter := JNull \<rparr>) = Inl TypeError
   \<and> fetcher_request example_state =
       Inr \<lparr> filters = [(''status'', JStr ''active'')], pagination_page = 3,
             pagination_pageSize = 25, sorter_orderColumn = JStr ''age'', sorter_orderDir = 1 \<rparr>
   \<and> exportFn (\<lambda>req. if pagination_page req = 1 then example_fetchData req else Inl TypeError)
        example_state
     = exportFn example_fetchData example_state
   \<and> exportFn example_fetchData example_state
     = Inr (dataSource example_options
              (JObj [(''mainResult'', JArr [JStr ''active'', JStr ''age'', JNum 1])]))"
proof -
  let ?raw = "JObj [(''mainResult'', JArr [JStr ''active'', JStr ''age'', JNum 1])]"
  let ?req = "\<lparr> filters = [(''status'', JStr ''active'')], pagination_page = 3,
             pagination_pageSize = 25, sorter_orderColumn = JStr ''age'', sorter_orderDir = 1 \<rparr>"
  let ?f' = "\<lambda>req. if pagination_page req = 1 then example_fetchData req else Inl TypeError"
  note t = exportFn_request [of example_options "[]" 0 "[]" "[]" example_fetchData example_state
      3 25 ?f' ?req ?raw example_options]
  note u = exportFn_request [of example_options "[]" 0 "[]" "[]" example_fetchData
      "example_state\<lparr> sorter := JObj [(''field'', JStr ''name'')] \<rparr>"]
  note v = exportFn_request [of example_options "[]" 0 "[]" "[]" example_fetchData
      "example_state\<lparr> sorter := JNull \<rparr>"]
  have n: "\<not> nullish (sorter example_state)"
    by (simp add: example_state_def)
  have fr: "fetcher_request example_state = Inr ?req"
    by (simp add: fetcher_request_def example_state_def orderColumn_def orderDir_def read_prop_def)
  have "exportFn example_fetchData example_state =
      (case example_fetchData
               \<lparr> filters = submittedFilters example_state,
                 pagination_page = 1,
                 pagination_pageSize = 0,
                 sorter_orderColumn =
                   js_or (get (sorter example_state) ''columnKey'') (get (sorter example_state) ''field''),
                 sorter_orderDir =
                   (if truthy (get (sorter example_state) ''order'')
                    then (if get (sorter example_state) ''order'' = JStr ''ascend'' then 1 else - 1)
                    else - 1) \<rparr> of
          Inl err \<Rightarrow> Inl err
        | Inr rawData \<Rightarrow> Inr (extractDataFromResponse rawData))"
    using t [THEN conjunct2, THEN conjunct1] n by (rule mp)
  then have ex: "exportFn example_fetchData example_state
      = Inr (JArr [JStr ''active'', JStr ''age'', JNum 1])"
    by (simp add: example_state_def example_fetchData_def js_or_def extractDataFromResponse_def
        coalesce_def)
  have n2: "\<not> nullish (sorter (example_state\<lparr> sorter := JObj [(''field'', JStr ''name'')] \<rparr>))"
    by simp
  have "exportFn example_fetchData (example_state\<lparr> sorter := JObj [(''field'', JStr ''name'')] \<rparr>) =
      (case example_fetchData
               \<lparr> filters = submittedFilters (example_state\<lparr> sorter := JObj [(''field'', JStr ''name'')] \<rparr>),
                 pagination_page = 1,
                 pagination_pageSize = 0,
                 sorter_orderColumn =
                   js_or (get (sorter (example_state\<lparr> sorter := JObj [(''field'', JStr ''name'')] \<rparr>)) ''columnKey'')
                     (get (sorter (example_state\<lparr> sorter := JObj [(''field'', JStr ''name'')] \<rparr>)) ''field''),
                 sorter_orderDir =
                   (if truthy (get (sorter (example_state\<lparr> sorter := JObj [(''field'', JStr ''name'')] \<rparr>)) ''order'')
                    then (if get (sorter (example_state\<lparr> sorter := JObj [(''field'', JStr ''name'')] \<rparr>)) ''order''
                             = JStr ''ascend'' then 1 else - 1)
                    else - 1) \<rparr> of
          Inl err \<Rightarrow> Inl err
        | Inr rawData \<Rightarrow> Inr (extractDataFromResponse rawData))"
    using u [THEN conjunct2, THEN conjunct1] n2 by (rule mp)
  then have ex2: "exportFn example_fetchData (example_state\<lparr> sorter := JObj [(''field'', JStr ''name'')] \<rparr>)
     = Inr (JArr [JStr ''active'', JStr ''name'', JNum (- 1)])"
    by (simp add: example_state_def example_fetchData_def js_or_def extractDataFromResponse_def
        coalesce_def)
  have n3: "nullish (sorter (example_state\<lparr> sorter := JNull \<rparr>))"
    by simp
  have ex3: "exportFn example_fetchData (example_state\<lparr> sorter := JNull \<rparr>) = Inl TypeError"
    using v [THEN conjunct2, THEN conjunct2, THEN conjunct1] n3 by (rule mp)
  have same: "\<forall>req. fetcher_request example_state = Inr req \<longrightarrow>
      ?f' (req\<lparr> pagination_page := 1, pagination_pageSize := 0 \<rparr>)
        = example_fetchData (req\<lparr> pagination_page := 1, pagination_pageSize := 0 \<rparr>)"
    by simp
  have ex4: "exportFn ?f' example_state = exportFn example_fetchData example_state"
    using t [THEN conjunct2, THEN conjunct2, THEN conjunct2, THEN conjunct2, THEN conjunct2,
        THEN conjunct1] same
    by (rule mp)
  have raw: "example_fetchData (?req\<lparr> pagination_page := 1, pagination_pageSize := 0 \<rparr>) = Inr ?raw"
    by (simp add: example_fetchData_def)
  have nn: "\<not> nullish ?raw" by simp
  have ex5: "exportFn example_fetchData example_state = Inr (dataSource example_options ?raw)"
    using t [THEN conjunct2, THEN conjunct2, THEN conjunct2, THEN conjunct2, THEN conjunct2,
        THEN conjunct2] fr raw nn
    by blast
  from n ex ex2 ex3 fr ex4 ex5 show ?thesis by blast
qed

section \<open>Properties of filter pruning\<close>

lemma pruned_update:
  "pruned result \<Longrightarrow> pruned_value v \<Longrightarrow> pruned (AList.update key v result)"
  by (induction result) auto

lemma pruned_assign:
  "pruned result \<Longrightarrow> pruned_value v \<Longrightarrow> pruned (assign key v result)"
  by (simp add: assign_def pruned_update)

lemma pruned_transform:
  "pruned result \<Longrightarrow> pruned (transform obj result)"
  "pruned result \<Longrightarrow> pruned (recursiveTransform result v key)"
proof (induction obj result and result v key rule: transform_recursiveTransform.induct)
  case (3 result nested key)
  then show ?case
    by (simp add: Let_def pruned_assign)
qed (simp_all add: pruned_assign)

lemma pruned_prune: "pruned (pruneNullOrUndefinedFields obj)"
  by (simp add: pruneNullOrUndefinedFields_def pruned_transform)

lemma step_pruned:
  "pruned (submittedFilters (state w)) \<Longrightarrow> pruned (submittedFilters (state (step opts e w)))"
  by (cases e)
     (simp_all add: submitFilters_def handlePaginationChange_def handleTableChange_def
        updateColumnVisibility_def resetColumnVisibility_def onErrorRetry_def onSuccess_def
        Let_def pruned_prune split: jsval.splits list.splits)

lemma run_pruned:
  "pruned (submittedFilters (state w)) \<Longrightarrow> pruned (submittedFilters (state (run opts evs w)))"
  unfolding run_def
  by (induction evs arbitrary: w) (simp_all add: step_pruned)

lemma map_of_assign:
  "key \<noteq> ''__proto__'' \<Longrightarrow> map_of (assign key v result) k = (if k = key then Some v else map_of result k)"
  by (simp add: assign_def update_conv')

lemma map_of_assign_other:
  "key \<noteq> k \<Longrightarrow> map_of (assign key v result) k = map_of result k"
  by (simp add: assign_def update_conv')

lemma recursiveTransform_other:
  "key \<noteq> k \<Longrightarrow> map_of (recursiveTransform result v key) k = map_of result k"
  by (cases v) (simp_all add: Let_def map_of_assign_other)

lemma transform_other:
  "k \<notin> set (map fst obj) \<Longrightarrow> map_of (transform obj result) k = map_of result k"
  by (induction obj arbitrary: result) (auto simp: recursiveTransform_other)

lemma recursiveTransform_kept:
  "kept_as_is v \<Longrightarrow> key \<noteq> ''__proto__'' \<Longrightarrow> map_of (recursiveTransform result v key) key = Some v"
  by (cases v) (simp_all add: map_of_assign)

lemma recursiveTransform_nested:
  "transform nested [] \<noteq> [] \<Longrightarrow> key \<noteq> ''__proto__'' \<Longrightarrow>
     map_of (recursiveTransform result (JObj nested) key) key = Some (JObj (transform nested []))"
  by (simp add: map_of_assign)

lemma transform_at_key:
  assumes "distinct (map fst obj)" and "map_of obj key = Some v" and "key \<noteq> ''__proto__''"
  shows "kept_as_is v \<Longrightarrow> map_of (transform obj result) key = Some v"
    and "v = JObj nested \<Longrightarrow> transform nested [] \<noteq> [] \<Longrightarrow>
           map_of (transform obj result) key = Some (JObj (transform nested []))"
  using assms
proof (induction obj arbitrary: result)
  case Nil
  {
    case 1
    then show ?case by simp
  next
    case 2
    then show ?case by simp
  }
next
  case (Cons a obj)
  obtain k0 v0 where a: "a = (k0, v0)" by (cases a)
  {
    case 1
    show ?case
    proof (cases "k0 = key")
      case True
      with 1 a have "v0 = v" "key \<notin> set (map fst obj)" by auto
      with True a 1 show ?thesis
        by (simp add: transform_other recursiveTransform_kept)
    next
      case False
      with 1 a have "distinct (map fst obj)" "map_of obj key = Some v" by auto
      with Cons.IH(1) 1 a show ?thesis by simp
    qed
  next
    case 2
    show ?case
    proof (cases "k0 = key")
      case True
      with 2 a have "v0 = JObj nested" "key \<notin> set (map fst obj)" by auto
      with True a 2 show ?thesis
        by (simp add: transform_other recursiveTransform_nested del: recursiveTransform.simps)
    next
      case False
      with 2 a have "distinct (map fst obj)" "map_of obj key = Some v" by auto
      with Cons.IH(2) 2 a show ?thesis by simp
    qed
  }
qed

lemma keys_image: "(k, v) \<in> set obj \<Longrightarrow> k \<in> fst ` set obj"
  by force

lemma distinct_keys_distinct: "distinct_keys obj \<Longrightarrow> distinct (map fst obj)"
  by (induction obj) (auto dest: keys_image)

lemma distinct_keys_nested:
  "distinct_keys obj \<Longrightarrow> map_of obj key = Some (JObj nested) \<Longrightarrow> distinct_keys nested"
  by (induction obj) (auto split: if_splits)

lemma at_path_empty: "at_path [] p = None"
proof (cases p)
  case Nil
  then show ?thesis by simp
next
  case (Cons k q)
  then show ?thesis by (cases q) simp_all
qed

lemma transform_at_path:
  "distinct_keys obj \<Longrightarrow> ''__proto__'' \<notin> set p \<Longrightarrow> at_path obj p = Some v \<Longrightarrow> kept_as_is v
     \<Longrightarrow> at_path (transform obj []) p = Some v"
proof (induction obj p rule: at_path.induct)
  case (1 obj)
  then show ?case by simp
next
  case (2 obj k)
  then show ?case
    by (simp add: transform_at_key(1) distinct_keys_distinct)
next
  case (3 obj k k' p)
  from "3.prems"(3) obtain nested where
    n: "map_of obj k = Some (JObj nested)" "at_path nested (k' # p) = Some v"
    by (auto split: option.splits jsval.splits)
  from "3.prems"(1) n(1) have dn: "distinct_keys nested"
    by (rule distinct_keys_nested)
  from "3.IH" [OF n(1) refl dn _ n(2) "3.prems"(4)] "3.prems"(2)
  have ih: "at_path (transform nested []) (k' # p) = Some v"
    by simp
  then have ne: "transform nested [] \<noteq> []"
    using at_path_empty [of "k' # p"] by auto
  from "3.prems"(1,2) n(1) ne
  have "map_of (transform obj []) k = Some (JObj (transform nested []))"
    by (intro transform_at_key(2) [where v = "JObj nested"]) (auto simp: distinct_keys_distinct)
  with ih show ?case by simp
qed

text \<open>
  Claim C9, as the code has it.  The submitted filters are pruned along their plain
  objects: in the initial state, after every \<^verbatim>\<open>submitFilters\<close>, and so in every state
  the hook reaches, no property of the filter object or of a plain object nested in it
  is \<^verbatim>\<open>null\<close>, \<^verbatim>\<open>undefined\<close> or the empty string, and no nested plain object is
  empty.  What an array or a class instance holds is kept as it is: an array or an
  instance found in the submitted filter object at a path through plain objects (of
  property names other than \<^verbatim>\<open>__proto__\<close>) is found unchanged at the same path of
  the submitted filters.
\<close>

theorem submittedFilters_pruned:
  "pruned (submittedFilters (initial_state opts now))
   \<and> pruned (submittedFilters (submitFilters opts now' newFilters s))
   \<and> pruned (submittedFilters (state (run opts evs
        \<lparr> state = initial_state opts now, cache = entries, timers = [] \<rparr>)))
   \<and> (distinct_keys newFilters \<and> ''__proto__'' \<notin> set p \<and> at_path newFilters p = Some v
        \<and> kept_as_is v
      \<longrightarrow> at_path (submittedFilters (submitFilters opts now' newFilters s)) p = Some v)
   \<and> kept_as_is (JArr xs)
   \<and> kept_as_is (JInst c kvs)"
proof -
  have i: "pruned (submittedFilters (initial_state opts now))"
    by (simp add: initial_state_def pruned_prune)
  have s: "pruned (submittedFilters (submitFilters opts now' newFilters s))"
    by (simp add: submitFilters_def pruned_prune)
  from i have r: "pruned (submittedFilters (state (run opts evs
        \<lparr> state = initial_state opts now, cache = entries, timers = [] \<rparr>)))"
    by (intro run_pruned) simp
  have k: "at_path (submittedFilters (submitFilters opts now' newFilters s)) p = Some v"
    if "distinct_keys newFilters" "''__proto__'' \<notin> set p" "at_path newFilters p = Some v"
      "kept_as_is v"
    using transform_at_path [OF that]
    by (simp add: submitFilters_def pruneNullOrUndefinedFields_def)
  from i s r k show ?thesis by simp
qed

theorem submittedFilters_pruned_witness:
  "distinct_keys example_filters
   \<and> ''__proto__'' \<notin> set [''created'', ''range'']
   \<and> at_path example_filters [''created'', ''range''] = Some (JArr [JNull, JStr []])
   \<and> kept_as_is (JArr [JNull, JStr []])
   \<and> at_path (submittedFilters (submitFilters example_options 0 example_filters example_state))
        [''created'', ''range''] = Some (JArr [JNull, JStr []])
   \<and> submittedFilters (submitFilters example_options 0 example_filters example_state)
       = [(''created'', JObj [(''range'', JArr [JNull, JStr []])]), (''status'', JStr ''active'')]"
proof -
  have d: "distinct_keys example_filters"
    by (simp add: example_filters_def)
  have q: "''__proto__'' \<notin> set [''created'', ''range'']"
    by simp
  have a: "at_path example_filters [''created'', ''range''] = Some (JArr [JNull, JStr []])"
    by (simp add: example_filters_def)
  have k: "kept_as_is (JArr [JNull, JStr []])"
    by simp
  have r: "at_path (submittedFilters (submitFilters example_options 0 example_filters example_state))
        [''created'', ''range''] = Some (JArr [JNull, JStr []])"
    using submittedFilters_pruned [of example_options 0 0 example_filters example_state "[]" "[]"
        "[''created'', ''range'']" "JArr [JNull, JStr []]" "[]" "[]" "[]",
        THEN conjunct2, THEN conjunct2, THEN conjunct2, THEN conjunct1] d q a k
    by blast
  have e: "submittedFilters (submitFilters example_options 0 example_filters example_state)
       = [(''created'', JObj [(''range'', JArr [JNull, JStr []])]), (''status'', JStr ''active'')]"
    by (simp add: submitFilters_def pruneNullOrUndefinedFields_def example_filters_def assign_def)
  from d q a k r e show ?thesis by blast
qed

text \<open>
  The claim as stated, at every nesting depth, fails for a date range left open: the
  two \<^verbatim>\<open>null\<close>s inside the array survive \<^verbatim>\<open>submitFilters\<close>.
\<close>

theorem submittedFilters_array_null_counterexample:
  "\<not> pruned_at_every_depth
       (submittedFilters
          (submitFilters example_options 0 [(''range'', JArr [JNull, JNull])] example_state))"
  by (simp add: submitFilters_def pruneNullOrUndefinedFields_def pruned_at_every_depth_def
      assign_def)

section \<open>Properties of parseErrorMessage\<close>







section \<open>Properties of the retry policy\<close>

lemma startsWith_iff: "startsWith s p \<longleftrightarrow> (\<exists>rest. s = p @ rest)"
  by (induction s p rule: startsWith.induct) auto

lemma startsWith_includes: "startsWith s p \<Longrightarrow> str_includes s p"
  by (cases s) (auto simp: startsWith_iff)

lemma key_matches_prefixed:
  assumes "c \<noteq> []"
  shows "key_matches (Some c) (StrKey (c @ rest))"
    and "key_matches (Some c) (ArrKey (JStr (c @ rest) # ks))"
  using assms by (simp_all add: key_matches_def startsWith_iff startsWith_includes)

lemma clear_matches:
  "(k, v) \<in> set (clearAllRelatedCache opts entries) \<Longrightarrow> key_matches (cacheKey opts) k
     \<Longrightarrow> v = JUndefined"
  by (auto simp: clearAllRelatedCache_def split: if_splits)

lemma clear_keys: "map fst (clearAllRelatedCache opts entries) = map fst entries"
  by (induction entries) (auto simp: clearAllRelatedCache_def)

lemma retry_below_two:
  "retryCount < 2 \<Longrightarrow>
     onErrorRetry opts retryCount w =
       w\<lparr> state := (state w)\<lparr> isRetrying := True \<rparr>, timers := timers w @ [(3000, retryCount)] \<rparr>"
  by (simp add: onErrorRetry_def Let_def)

lemma retry_exhausted:
  "retryCount \<ge> 2 \<Longrightarrow>
     onErrorRetry opts retryCount w =
       w\<lparr> state := (state w)\<lparr> isCacheKeyUndefined := True, isRetrying := False \<rparr>,
          cache := clearAllRelatedCache opts (cache w) \<rparr>"
  by (simp add: onErrorRetry_def Let_def)

lemma failures_timers:
  "timers (consecutive_failures opts n 0 w) = timers w @ (if n = 0 then [] else [(3000, 1)])"
proof (cases n)
  case 0
  then show ?thesis by simp
next
  case (Suc m)
  show ?thesis
  proof (cases m)
    case 0
    with Suc show ?thesis
      by (simp add: retry_below_two Let_def)
  next
    case (Suc k)
    with \<open>n = Suc m\<close> show ?thesis
      by (simp add: retry_below_two retry_exhausted Let_def)
  qed
qed

lemma failures_suppressed:
  "n \<ge> 2 \<Longrightarrow> consecutive_failures opts n 0 w = onErrorRetry opts 2 (onErrorRetry opts 1 w)"
proof -
  assume "n \<ge> 2"
  then obtain k where "n = Suc (Suc k)"
    by (metis Suc_le_D numeral_2_eq_2 Suc_le_mono)
  then show ?thesis
    by (simp add: retry_below_two retry_exhausted Let_def)
qed

lemma step_keeps_suppressed:
  "isCacheKeyUndefined (state w) \<Longrightarrow> \<not> is_submit e \<Longrightarrow> isCacheKeyUndefined (state (step opts e w))"
  by (cases e)
     (simp_all add: is_submit_def handlePaginationChange_def handleTableChange_def
        updateColumnVisibility_def resetColumnVisibility_def onErrorRetry_def onSuccess_def
        Let_def split: jsval.splits list.splits)

lemma run_keeps_suppressed:
  "isCacheKeyUndefined (state w) \<Longrightarrow> \<forall>e \<in> set evs. \<not> is_submit e
     \<Longrightarrow> isCacheKeyUndefined (state (run opts evs w))"
  unfolding run_def
  by (induction evs arbitrary: w) (simp_all add: step_keeps_suppressed)

lemma prefixed_matches:
  "c \<noteq> [] \<Longrightarrow> prefixed_by c key \<Longrightarrow> key_matches (Some c) key"
  by (auto simp: prefixed_by_def key_matches_def startsWith_includes
      split: cache_key.splits list.splits jsval.splits)

lemma clear_invalidates:
  "cacheKey opts = Some c \<Longrightarrow> c \<noteq> [] \<Longrightarrow> invalidated_under c (clearAllRelatedCache opts entries)"
proof -
  assume ck: "cacheKey opts = Some c" and ne: "c \<noteq> []"
  have "v = JUndefined"
    if "(k, v) \<in> set (clearAllRelatedCache opts entries)" "prefixed_by c k" for k v
    using clear_matches [OF that(1)] prefixed_matches [OF ne that(2)] ck by simp
  then show ?thesis
    by (auto simp: invalidated_under_def list_all_iff)
qed

lemma clear_without_key:
  "cacheKey opts = None \<or> cacheKey opts = Some [] \<Longrightarrow> clearAllRelatedCache opts entries = entries"
  by (induction entries) (auto simp: clearAllRelatedCache_def key_matches_def)

lemma submit_enables: "swr_key stringify opts (submitFilters opts now newFilters s) \<noteq> None"
  by (simp add: swr_key_def submitFilters_def Let_def)

text \<open>
  Claim C1, as the code has it.  A failure reported with a retry count below 2 sets one
  timer of 3000 ms for the next request and touches neither the cache nor the
  suppression flag; as the library counts failures from 1, a run of failures sets one
  such timer, never more than two.  A failure reported with a count of 2 or more (the
  second failure in a row) sets no timer, raises the suppression flag, so that the key
  of \<^verbatim>\<open>useSWR\<close> is \<^verbatim>\<open>undefined\<close>, and, when the cache key is a non-empty string,
  leaves \<^verbatim>\<open>undefined\<close> in every cache entry whose key is prefixed by it.  The key
  stays \<^verbatim>\<open>undefined\<close> through every event that is not \<^verbatim>\<open>submitFilters\<close>, and
  \<^verbatim>\<open>submitFilters\<close> makes it defined again.
\<close>

theorem retry_policy:
  "(retryCount < 2 \<longrightarrow>
      onErrorRetry opts retryCount w =
        w\<lparr> state := (state w)\<lparr> isRetrying := True \<rparr>,
           timers := timers w @ [(3000, retryCount)] \<rparr>)
   \<and> timers (consecutive_failures opts n 0 w) = timers w @ (if n = 0 then [] else [(3000, 1)])
   \<and> length (timers (consecutive_failures opts n 0 w)) \<le> length (timers w) + 2
   \<and> (2 \<le> n \<longrightarrow> consecutive_failures opts n 0 w = onErrorRetry opts 2 (onErrorRetry opts 1 w))
   \<and> (2 \<le> retryCount \<longrightarrow>
        timers (onErrorRetry opts retryCount w) = timers w
        \<and> map fst (cache (onErrorRetry opts retryCount w)) = map fst (cache w)
        \<and> isCacheKeyUndefined (state (onErrorRetry opts retryCount w))
        \<and> swr_key stringify opts (state (onErrorRetry opts retryCount w)) = None)
   \<and> (2 \<le> retryCount \<and> cacheKey opts = Some c \<and> c \<noteq> [] \<longrightarrow>
        invalidated_under c (cache (onErrorRetry opts retryCount w)))
   \<and> (isCacheKeyUndefined (state w) \<and> (\<forall>e \<in> set evs. \<not> is_submit e) \<longrightarrow>
        swr_key stringify opts (state (run opts evs w)) = None)
   \<and> swr_key stringify opts (submitFilters opts now newFilters s) \<noteq> None
   \<and> (cacheKey opts = None \<or> cacheKey opts = Some [] \<longrightarrow>
        cache (onErrorRetry opts retryCount w) = cache w)"
proof -
  have t: "timers (consecutive_failures opts n 0 w) = timers w @ (if n = 0 then [] else [(3000, 1)])"
    by (rule failures_timers)
  then have l: "length (timers (consecutive_failures opts n 0 w)) \<le> length (timers w) + 2"
    by simp
  have e: "timers (onErrorRetry opts retryCount w) = timers w
        \<and> map fst (cache (onErrorRetry opts retryCount w)) = map fst (cache w)
        \<and> isCacheKeyUndefined (state (onErrorRetry opts retryCount w))
        \<and> swr_key stringify opts (state (onErrorRetry opts retryCount w)) = None"
    if "2 \<le> retryCount"
    using that by (simp add: retry_exhausted clear_keys swr_key_def)
  have i: "invalidated_under c (cache (onErrorRetry opts retryCount w))"
    if "2 \<le> retryCount" "cacheKey opts = Some c" "c \<noteq> []"
    using that by (simp add: retry_exhausted clear_invalidates)
  have k: "swr_key stringify opts (state (run opts evs w)) = None"
    if "isCacheKeyUndefined (state w)" "\<forall>e \<in> set evs. \<not> is_submit e"
    using run_keeps_suppressed [OF that] by (simp add: swr_key_def)
  have u: "cache (onErrorRetry opts retryCount w) = cache w"
    if "cacheKey opts = None \<or> cacheKey opts = Some []"
    using that by (cases "2 \<le> retryCount")
      (simp_all add: onErrorRetry_def Let_def clear_without_key)
  from t l e i k u show ?thesis
    using retry_below_two failures_suppressed submit_enables by blast
qed

theorem retry_policy_witness:
  "cache (onErrorRetry example_options 2 example_world) =
     [(ArrKey [JStr ''users'', JNum 3, JNum 25, JStr ''{status:active}'',
               JStr ''{columnKey:age,order:ascend}'', JStr ''filters_5666666''], JUndefined),
      (StrKey ''users-count'', JUndefined),
      (StrKey ''orders'', JNum 7)]
   \<and> invalidated_under ''users'' (cache (onErrorRetry example_options 2 example_world))
   \<and> timers (onErrorRetry example_options 1 example_world) = [(3000, 1)]
   \<and> timers (consecutive_failures example_options 5 0 example_world) = [(3000, 1)]
   \<and> swr_key (\<lambda>v. []) example_options
        (state (run example_options [PaginationChange 2 25, FetchSuccess]
           (consecutive_failures example_options 2 0 example_world))) = None
   \<and> swr_key (\<lambda>v. []) example_options
        (state (run example_options [SubmitFilters 0 []]
           (consecutive_failures example_options 2 0 example_world))) \<noteq> None
   \<and> cache (onErrorRetry empty_key_options 2 empty_key_world) = cache empty_key_world"
proof -
  let ?evs = "[PaginationChange 2 25, FetchSuccess]"
  let ?w2 = "consecutive_failures example_options 2 0 example_world"
  note p = retry_policy [of 2 example_options example_world 5 "\<lambda>v. []" "''users''"
      ?evs 0 "[]" example_state]
  note q = retry_policy [of 1 example_options example_world 2 "\<lambda>v. []" "''users''"
      ?evs 0 "[]" example_state]
  note r = retry_policy [of 2 example_options ?w2 2 "\<lambda>v. []" "''users''" ?evs 0 "[]"
      "state (run example_options [] ?w2)"]
  note o = retry_policy [of 2 example_options "onErrorRetry example_options 1 example_world"
      0 "\<lambda>v. []" "''users''" ?evs 0 "[]" example_state]
  have ck: "cacheKey example_options = Some ''users''"
    by (simp add: example_options_def)
  have tw: "timers example_world = []"
    by (simp add: example_world_def)
  have c: "cache (onErrorRetry example_options 2 example_world) =
     [(ArrKey [JStr ''users'', JNum 3, JNum 25, JStr ''{status:active}'',
               JStr ''{columnKey:age,order:ascend}'', JStr ''filters_5666666''], JUndefined),
      (StrKey ''users-count'', JUndefined),
      (StrKey ''orders'', JNum 7)]"
    by (simp add: onErrorRetry_def Let_def example_world_def clearAllRelatedCache_def
        key_matches_def ck)
  have i: "invalidated_under ''users'' (cache (onErrorRetry example_options 2 example_world))"
    using p [THEN conjunct2, THEN conjunct2, THEN conjunct2, THEN conjunct2, THEN conjunct2,
        THEN conjunct1] ck
    by simp
  have "onErrorRetry example_options 1 example_world =
      example_world\<lparr> state := (state example_world)\<lparr> isRetrying := True \<rparr>,
        timers := timers example_world @ [(3000, 1)] \<rparr>"
    using q [THEN conjunct1] by simp
  then have t1: "timers (onErrorRetry example_options 1 example_world) = [(3000, 1)]"
    by (simp add: tw)
  have "timers (consecutive_failures example_options 5 0 example_world) =
      timers example_world @ (if (5::nat) = 0 then [] else [(3000, 1)])"
    using p by (rule conjunct2 [THEN conjunct1])
  then have t5: "timers (consecutive_failures example_options 5 0 example_world) = [(3000, 1)]"
    by (simp add: tw)
  have f2: "?w2 = onErrorRetry example_options 2 (onErrorRetry example_options 1 example_world)"
    using q [THEN conjunct2, THEN conjunct2, THEN conjunct2, THEN conjunct1] by simp
  have sup: "isCacheKeyUndefined (state ?w2)"
    unfolding f2
    using o [THEN conjunct2, THEN conjunct2, THEN conjunct2, THEN conjunct2, THEN conjunct1]
    by simp
  have ns: "\<forall>e \<in> set ?evs. \<not> is_submit e"
    by (simp add: is_submit_def)
  have s1: "swr_key (\<lambda>v. []) example_options (state (run example_options ?evs ?w2)) = None"
    using r [THEN conjunct2, THEN conjunct2, THEN conjunct2, THEN conjunct2, THEN conjunct2,
        THEN conjunct2, THEN conjunct1] sup ns
    by blast
  have "swr_key (\<lambda>v. []) example_options
      (submitFilters example_options 0 [] (state (run example_options [] ?w2))) \<noteq> None"
    using r by (rule conjunct2 [THEN conjunct2, THEN conjunct2, THEN conjunct2, THEN conjunct2,
        THEN conjunct2, THEN conjunct2, THEN conjunct1])
  then have s2: "swr_key (\<lambda>v. []) example_options
        (state (run example_options [SubmitFilters 0 []] ?w2)) \<noteq> None"
    by (simp add: run_def)
  have ek: "cacheKey empty_key_options = None \<or> cacheKey empty_key_options = Some []"
    by (simp add: empty_key_options_def)
  have u: "cache (onErrorRetry empty_key_options 2 empty_key_world) = cache empty_key_world"
    using retry_policy [of 2 empty_key_options empty_key_world 0 "\<lambda>v. []" "[]" "[]" 0 "[]"
        example_state, THEN conjunct2, THEN conjunct2, THEN conjunct2, THEN conjunct2,
        THEN conjunct2, THEN conjunct2, THEN conjunct2, THEN conjunct2] ek
    by blast
  from c i t1 t5 s1 s2 u show ?thesis by blast
qed

text \<open>
  The claim as stated fails for the empty cache key: every key is prefixed by the empty
  string, the filter of \<^verbatim>\<open>clearAllRelatedCache\<close> rejects all keys when the cache key
  is falsy, and the entry the hook fetched keeps its data.
\<close>

theorem retry_empty_cacheKey_counterexample:
  "cacheKey empty_key_options = Some []
   \<and> \<not> invalidated_under [] (cache (onErrorRetry empty_key_options 2 empty_key_world))"
  by (simp add: empty_key_options_def empty_key_world_def example_options_def onErrorRetry_def
      Let_def clearAllRelatedCache_def key_matches_def invalidated_under_def prefixed_by_def)

section \<open>Properties of the presets hook\<close>

lemma sort_key_head_min:
  "sort_key f xs = y # ys \<Longrightarrow> y \<in> set xs \<and> (\<forall>x \<in> set xs. f y \<le> f x)"
proof -
  assume a: "sort_key f xs = y # ys"
  have s: "sorted (map f (sort_key f xs))" by (rule sorted_sort_key)
  have m: "set (sort_key f xs) = set xs" by simp
  from a m have "y \<in> set xs" by (metis list.set_intros(1))
  moreover have "\<forall>x \<in> set xs. f y \<le> f x"
  proof
    fix x assume "x \<in> set xs"
    with m a have "x \<in> set (y # ys)" by simp
    moreover from s a have "sorted (map f (y # ys))" by simp
    ultimately show "f y \<le> f x" by auto
  qed
  ultimately show ?thesis by simp
qed

lemma set_map_the_filter:
  "y \<in> set (map the (filter (\<lambda>r. r \<noteq> None) (map f xs))) \<longleftrightarrow> (\<exists>x \<in> set xs. f x = Some y)"
  by (induction xs) auto

lemma parse_preset_Some:
  "parse_preset parse p = Some q \<longleftrightarrow>
     (\<exists>d. parse (data p) = Some d
        \<and> q = \<lparr> presetId = presetId p, name = name p, data = data p, parsedData = d \<rparr>)"
  by (auto simp: parse_preset_def split: option.splits)

lemma lastUpdated_positive_iff:
  "lastUpdated_positive coerce q \<longleftrightarrow>
     (\<exists>n. ToNumber coerce (get (parsedData q) ''lastUpdated'') = Some n \<and> n > 0)"
  by (simp add: lastUpdated_positive_def lastUpdated_def split: option.splits)

lemma parsedPresets_iff:
  "q \<in> set (parsedPresets parse coerce presets) \<longleftrightarrow>
     (\<exists>p \<in> set presets. \<exists>d n. parse (data p) = Some d
        \<and> q = \<lparr> presetId = presetId p, name = name p, data = data p, parsedData = d \<rparr>
        \<and> ToNumber coerce (get d ''lastUpdated'') = Some n \<and> n > 0)"
proof -
  have "q \<in> set (parsedPresets parse coerce presets) \<longleftrightarrow>
      lastUpdated_positive coerce q \<and> (\<exists>p \<in> set presets. parse_preset parse p = Some q)"
    unfolding parsedPresets_def set_filter mem_Collect_eq set_map_the_filter
    by (rule conj_commute)
  also have "\<dots> \<longleftrightarrow> (\<exists>p \<in> set presets. \<exists>d n. parse (data p) = Some d
        \<and> q = \<lparr> presetId = presetId p, name = name p, data = data p, parsedData = d \<rparr>
        \<and> ToNumber coerce (get d ''lastUpdated'') = Some n \<and> n > 0)"
    by (auto simp: parse_preset_Some lastUpdated_positive_iff)
  finally show ?thesis .
qed

text \<open>
  Claim C6.  Default-preset selection returns nothing when the preset kind is absent,
  when the list is empty, and when no entry is valid.  Otherwise it returns a valid
  entry (with its data replaced by the parsed data) whose timestamp is the largest
  among the valid entries.  The valid entries are exactly those whose data parses and
  whose parsed \<^verbatim>\<open>lastUpdated\<close> is a number greater than 0: an entry that does not
  parse is skipped, one with a timestamp that is not positive is discarded.
\<close>

theorem defaultPreset_most_recent:
  "(presetKind = None \<or> presets = [] \<or> parsedPresets parse coerce presets = []
      \<longrightarrow> defaultPreset parse coerce presetKind presets = None)
   \<and> (presetKind \<noteq> None \<and> parsedPresets parse coerce presets \<noteq> []
      \<longrightarrow> (\<exists>m \<in> set (parsedPresets parse coerce presets).
            defaultPreset parse coerce presetKind presets =
              Some \<lparr> presetId = presetId m, name = name m,
                     data = parsedData m, parsedData = parsedData m \<rparr>
            \<and> (\<forall>q \<in> set (parsedPresets parse coerce presets).
                  timestamp coerce q \<le> timestamp coerce m)))
   \<and> (\<forall>q. q \<in> set (parsedPresets parse coerce presets) \<longleftrightarrow>
         (\<exists>p \<in> set presets. \<exists>d n. parse (data p) = Some d
            \<and> q = \<lparr> presetId = presetId p, name = name p, data = data p, parsedData = d \<rparr>
            \<and> ToNumber coerce (get d ''lastUpdated'') = Some n \<and> n > 0
            \<and> timestamp coerce q = n))"
proof -
  let ?ps = "parsedPresets parse coerce presets"
  have none: "defaultPreset parse coerce presetKind presets = None"
    if "presetKind = None \<or> presets = [] \<or> ?ps = []"
    using that by (auto simp: defaultPreset_def Let_def)
  have some: "\<exists>m \<in> set ?ps.
            defaultPreset parse coerce presetKind presets =
              Some \<lparr> presetId = presetId m, name = name m,
                     data = parsedData m, parsedData = parsedData m \<rparr>
            \<and> (\<forall>q \<in> set ?ps. timestamp coerce q \<le> timestamp coerce m)"
    if k: "presetKind \<noteq> None" and ne: "?ps \<noteq> []"
  proof -
    from ne have pne: "presets \<noteq> []"
      by (auto simp: parsedPresets_def)
    from ne have "sort_key (\<lambda>p. - timestamp coerce p) ?ps \<noteq> []"
      by (metis length_sort length_0_conv)
    then obtain m rest where s: "sort_key (\<lambda>p. - timestamp coerce p) ?ps = m # rest"
      by (cases "sort_key (\<lambda>p. - timestamp coerce p) ?ps") auto
    from sort_key_head_min [OF s]
    have m: "m \<in> set ?ps" "\<forall>q \<in> set ?ps. timestamp coerce q \<le> timestamp coerce m"
      by auto
    from k pne ne s have "defaultPreset parse coerce presetKind presets =
        Some \<lparr> presetId = presetId m, name = name m,
               data = parsedData m, parsedData = parsedData m \<rparr>"
      by (simp add: defaultPreset_def Let_def)
    with m show ?thesis by blast
  qed
  have iff: "q \<in> set ?ps \<longleftrightarrow>
         (\<exists>p \<in> set presets. \<exists>d n. parse (data p) = Some d
            \<and> q = \<lparr> presetId = presetId p, name = name p, data = data p, parsedData = d \<rparr>
            \<and> ToNumber coerce (get d ''lastUpdated'') = Some n \<and> n > 0
            \<and> timestamp coerce q = n)" for q
    by (auto simp: parsedPresets_iff timestamp_def lastUpdated_def)
  from none some iff show ?thesis by blast
qed

theorem defaultPreset_most_recent_witness:
  "defaultPreset example_parse example_coerce (Some 1) example_presets =
     Some \<lparr> presetId = ''3'', name = ''Recent'',
            data = JObj [(''lastUpdated'', JNum 9), (''filters'', JObj [(''status'', JStr ''active'')])],
            parsedData = JObj [(''lastUpdated'', JNum 9), (''filters'', JObj [(''status'', JStr ''active'')])] \<rparr>
   \<and> defaultPreset example_parse example_coerce None example_presets = None
   \<and> defaultPreset example_parse example_coerce (Some 1) [] = None
   \<and> defaultPreset example_parse example_coerce (Some 1) (drop 3 example_presets) = None"
proof -
  have ps: "parsedPresets example_parse example_coerce example_presets =
     [\<lparr> presetId = ''1'', name = ''Old'', data = ''{lastUpdated:5}'',
        parsedData = JObj [(''lastUpdated'', JNum 5)] \<rparr>,
      \<lparr> presetId = ''3'', name = ''Recent'', data = ''{lastUpdated:9,filters:{status:active}}'',
        parsedData = JObj [(''lastUpdated'', JNum 9), (''filters'', JObj [(''status'', JStr ''active'')])] \<rparr>]"
    by (simp add: parsedPresets_def example_presets_def parse_preset_def example_parse_def
        lastUpdated_positive_def lastUpdated_def)
  have ts: "timestamp example_coerce
       \<lparr> presetId = ''1'', name = ''Old'', data = ''{lastUpdated:5}'',
        parsedData = JObj [(''lastUpdated'', JNum 5)] \<rparr> = 5"
       "timestamp example_coerce \<lparr> presetId = ''3'', name = ''Recent'', data = ''{lastUpdated:9,filters:{status:active}}'',
        parsedData = JObj [(''lastUpdated'', JNum 9), (''filters'', JObj [(''status'', JStr ''active'')])] \<rparr> = 9"
    by (simp_all add: timestamp_def lastUpdated_def)
  have e: "parsedPresets example_parse example_coerce (drop 3 example_presets) = []"
    by (simp add: parsedPresets_def example_presets_def parse_preset_def example_parse_def
        lastUpdated_positive_def lastUpdated_def)
  note t = defaultPreset_most_recent [of "Some 1" example_presets example_parse example_coerce]
  have ne: "Some (1::int) \<noteq> None \<and> parsedPresets example_parse example_coerce example_presets \<noteq> []"
    by (simp add: ps)
  from t [THEN conjunct2, THEN conjunct1, rule_format, OF ne] obtain m where m: "m \<in> set (parsedPresets example_parse example_coerce example_presets)"
    "defaultPreset example_parse example_coerce (Some 1) example_presets =
       Some \<lparr> presetId = presetId m, name = name m, data = parsedData m, parsedData = parsedData m \<rparr>"
    "\<forall>q \<in> set (parsedPresets example_parse example_coerce example_presets).
        timestamp example_coerce q \<le> timestamp example_coerce m"
    by blast
  from m(1,3) have "m = \<lparr> presetId = ''3'', name = ''Recent'', data = ''{lastUpdated:9,filters:{status:active}}'',
        parsedData = JObj [(''lastUpdated'', JNum 9), (''filters'', JObj [(''status'', JStr ''active'')])] \<rparr>"
    unfolding ps using ts by auto
  with m(2) have a: "defaultPreset example_parse example_coerce (Some 1) example_presets =
     Some \<lparr> presetId = ''3'', name = ''Recent'',
            data = JObj [(''lastUpdated'', JNum 9), (''filters'', JObj [(''status'', JStr ''active'')])],
            parsedData = JObj [(''lastUpdated'', JNum 9), (''filters'', JObj [(''status'', JStr ''active'')])] \<rparr>"
    by simp
  have b: "defaultPreset example_parse example_coerce None example_presets = None"
    using defaultPreset_most_recent [of None example_presets example_parse example_coerce] by simp
  have c: "defaultPreset example_parse example_coerce (Some 1) [] = None"
    using defaultPreset_most_recent [of "Some 1" "[]" example_parse example_coerce] by simp
  have d: "defaultPreset example_parse example_coerce (Some 1) (drop 3 example_presets) = None"
    using defaultPreset_most_recent [of "Some 1" "drop 3 example_presets" example_parse example_coerce] e
    by simp
  from a b c d show ?thesis by simp
qed

text \<open>
  Where they run, the optimistic updates populate the cache without revalidation:
  \<^verbatim>\<open>addPreset\<close> appends the new entry to the cached list and \<^verbatim>\<open>deletePreset\<close>
  filters the deleted id out of it.  With \<^verbatim>\<open>agent\<close> unbound, \<^verbatim>\<open>deletePreset\<close>
  fails before it reaches the cache.
\<close>

lemma addPreset_appends:
  "addPreset presetKind addPresetFn stringify arg currentData = Inr (newPreset, updated)
     \<Longrightarrow> updated = (case currentData of Some cur \<Rightarrow> cur @ [newPreset] | None \<Rightarrow> [newPreset])"
  by (auto simp: addPreset_def split: option.splits sum.splits)

lemma deletePreset_filters:
  "deletePreset presetKind agent_deletePreset pid currentPresets = Inr updated
     \<Longrightarrow> updated = (case currentPresets of
                       Some cur \<Rightarrow> filter (\<lambda>p. presetId p \<noteq> pid) cur
                     | None \<Rightarrow> [])"
  by (auto simp: deletePreset_def split: option.splits sum.splits)

lemma deletePreset_unbound_agent:
  "deletePreset (Some kind) None pid currentPresets = Inl ReferenceError"
  by (simp add: deletePreset_def)

text \<open>
  Claim C7 says that \<^verbatim>\<open>addPreset\<close> and \<^verbatim>\<open>deletePreset\<close> are exposed to the
  caller.  The object the hook returns has neither property (both are commented out of
  the object literal), although the page builder reads both from it: the caller
  receives \<^verbatim>\<open>undefined\<close> for each, while \<^verbatim>\<open>getPresets\<close> is exposed.
\<close>

theorem usePresets_mutations_not_exposed:
  "map_of (usePresets parse coerce presetKind presets error isValidating isLoading) ''addPreset'' = None
   \<and> map_of (usePresets parse coerce presetKind presets error isValidating isLoading) ''deletePreset'' = None
   \<and> ''addPreset'' \<in> set pageBuilder_reads
   \<and> ''deletePreset'' \<in> set pageBuilder_reads
   \<and> map_of (usePresets parse coerce presetKind presets error isValidating isLoading) ''getPresets''
       = Some (MCallback ''getPresets'')"
  by (simp add: usePresets_def pageBuilder_reads_def)

end
